theory Spec2Isabelle
  imports Complex_Main "HOL-Library.Sublist"
begin

section \<open>Common values and errors\<close>

text \<open>
  Python exceptions are values of one datatype; a function that may raise returns
  \<open>error + 'a\<close>, with \<open>Inl\<close> for the exception.
\<close>

datatype error =
    ValueError
  | AssertionError
  | KeyError
  | TypeError
  | NotImplementedError
  | ChannelMappingException
  | MissingParameterDeclarationException
  | MissingMappingException

text \<open>
  A value a caller can hand to a Python attribute: the setter of
  \<open>amplitude_offset_handling\<close> is untyped, so strings, numbers and \<open>None\<close> all reach it.
\<close>

datatype py_value = PyStr string | PyInt int | PyNone

text \<open>\<open>ChannelID = Union[str, int]\<close> (qupulse.utils.types).\<close>

datatype ChannelID = ChanName string | ChanNum int

section \<open>qupulse/hardware/awgs/base.py: class AWG\<close>

text \<open>\<open>class AWGAmplitudeOffsetHandling\<close>: two string constants and the list of valid ones.\<close>

definition IGNORE_OFFSET :: py_value where
  "IGNORE_OFFSET = PyStr ''ignore_offset''"

definition CONSIDER_OFFSET :: py_value where
  "CONSIDER_OFFSET = PyStr ''consider_offset''"

definition valid_modes :: "py_value list" where
  "valid_modes = [IGNORE_OFFSET, CONSIDER_OFFSET]"

text \<open>
  The two private attributes that \<open>AWG.__init__\<close> creates. Everything else of the class is
  abstract and left to the drivers.
\<close>

record AWG =
  awg_identifier :: string
  awg_amplitude_offset_handling :: py_value

text \<open>
  \<^verbatim>\<open>
  def __init__(self, identifier: str):
      self._identifier = identifier
      self._amplitude_offset_handling = AWGAmplitudeOffsetHandling.IGNORE_OFFSET
  \<close>
\<close>

definition AWG_init :: "string \<Rightarrow> AWG" where
  "AWG_init ident =
     \<lparr> awg_identifier = ident, awg_amplitude_offset_handling = IGNORE_OFFSET \<rparr>"

definition AWG_identifier :: "AWG \<Rightarrow> string" where
  "AWG_identifier self = awg_identifier self"

definition amplitude_offset_handling :: "AWG \<Rightarrow> py_value" where
  "amplitude_offset_handling self = awg_amplitude_offset_handling self"

text \<open>
  The setter. It raises before it assigns, so the model returns the outcome together with
  the object as it is afterwards:
  \<^verbatim>\<open>
  if value not in AWGAmplitudeOffsetHandling._valid:
      raise ValueError('"{}" is invalid as AWGAmplitudeOffsetHandling'.format(value))
  self._amplitude_offset_handling = value
  \<close>
  The message of the exception is not modelled.
\<close>

definition set_amplitude_offset_handling :: "AWG \<Rightarrow> py_value \<Rightarrow> (error + unit) \<times> AWG" where
  "set_amplitude_offset_handling self v =
     (if v \<notin> set valid_modes then (Inl ValueError, self)
      else (Inr (), self\<lparr> awg_amplitude_offset_handling := v \<rparr>))"

text \<open>
  The concrete members of the base class as operations on one instance: the two property
  reads, the property write, and \<open>__copy__\<close>/\<open>__deepcopy__\<close>, which always raise
  \<open>NotImplementedError\<close>. \<open>awg_step\<close> gives the instance after one operation,
  \<open>awg_run\<close> after a sequence of them (an exception is caught by the caller and the next
  operation follows).
\<close>

datatype awg_op =
    ReadIdentifier
  | ReadAmplitudeOffsetHandling
  | WriteAmplitudeOffsetHandling py_value
  | Copy
  | DeepCopy

fun awg_step :: "AWG \<Rightarrow> awg_op \<Rightarrow> AWG" where
  "awg_step self ReadIdentifier = self"
| "awg_step self ReadAmplitudeOffsetHandling = self"
| "awg_step self (WriteAmplitudeOffsetHandling v) = snd (set_amplitude_offset_handling self v)"
| "awg_step self Copy = self"
| "awg_step self DeepCopy = self"

fun awg_run :: "AWG \<Rightarrow> awg_op list \<Rightarrow> AWG" where
  "awg_run self [] = self"
| "awg_run self (op # ops) = awg_run (awg_step self op) ops"

fun is_write :: "awg_op \<Rightarrow> bool" where
  "is_write (WriteAmplitudeOffsetHandling v) = True"
| "is_write other = False"

section \<open>qupulse/hardware/awgs/base.py: class ProgramEntry\<close>

subsection \<open>The collaborators of ProgramEntry\<close>

text \<open>
  A waveform is a Python object, used by reference: \<open>wref\<close> is the identity of the object
  (\<open>id(w)\<close>, so \<open>a is b\<close> is \<open>a = b\<close> on references) and the store gives the object that a
  reference points to.

  Modelled from the spec: class \<open>Waveform\<close> (qupulse._program.waveforms) is not among the
  source files. Of a waveform the program entry uses its equality and hash, its duration
  (through the time-grid utility) and \<open>get_sampled\<close>. The spec gives equality and hash over
  the compare key (a \<open>Comparable\<close>, as \<open>test_equality\<close> checks on two separately built
  instances), the duration as an exact rational, and sampling as a function of a channel
  and a time grid that fails with a not-found error for a channel the waveform lacks.
  Sample arrays are floating-point arrays in the program; here they are lists of reals.
\<close>

type_synonym wref = nat

record waveform_obj =
  compare_key :: nat
  duration :: rat
  get_sampled :: "ChannelID \<Rightarrow> real list \<Rightarrow> error + real list"

type_synonym store = "wref \<Rightarrow> waveform_obj"

text \<open>
  The test a Python dictionary makes between a stored key and a looked-up key:
  \<open>a is b or a == b\<close>, where \<open>==\<close> of a waveform compares compare keys.
\<close>

definition waveform_eq :: "store \<Rightarrow> wref \<Rightarrow> wref \<Rightarrow> bool" where
  "waveform_eq st a b \<longleftrightarrow> a = b \<or> compare_key (st a) = compare_key (st b)"

text \<open>
  Modelled from the spec: class \<open>Loop\<close> (qupulse._program._loop) is not among the source
  files. The spec describes it as a tree of repetition nodes with waveform leaves; the
  program entry calls \<open>get_depth_first_iterator\<close>, \<open>is_leaf\<close> and \<open>waveform\<close> on it. The
  iterator yields the nodes below a node, child by child in order, and then the node.
\<close>

datatype loop =
    Leaf (waveform: wref) (repetition_count: nat)
  | Node (children: "loop list") (repetition_count: nat)

fun is_leaf :: "loop \<Rightarrow> bool" where
  "is_leaf (Leaf w n) = True"
| "is_leaf (Node cs n) = False"

fun get_depth_first_iterator :: "loop \<Rightarrow> loop list" where
  "get_depth_first_iterator (Leaf w n) = [Leaf w n]"
| "get_depth_first_iterator (Node cs n) =
     concat (map get_depth_first_iterator cs) @ [Node cs n]"

subsection \<open>collections.OrderedDict\<close>

text \<open>
  An ordered dictionary is the list of its items in insertion order. Storing under a key
  that the dictionary already holds (by the dictionary's key test) replaces the value and
  keeps the stored key object and its position; a new key goes to the end.
  \<open>OrderedDict(pairs)\<close> stores the pairs one after the other.
\<close>

fun od_store :: "('k \<Rightarrow> 'k \<Rightarrow> bool) \<Rightarrow> ('k \<times> 'v) list \<Rightarrow> 'k \<Rightarrow> 'v \<Rightarrow> ('k \<times> 'v) list" where
  "od_store eq [] k v = [(k, v)]"
| "od_store eq ((k', v') # d) k v =
     (if eq k' k then (k', v) # d else (k', v') # od_store eq d k v)"

definition OrderedDict :: "('k \<Rightarrow> 'k \<Rightarrow> bool) \<Rightarrow> ('k \<times> 'v) list \<Rightarrow> ('k \<times> 'v) list" where
  "OrderedDict eq pairs = foldl (\<lambda>d (k, v). od_store eq d k v) [] pairs"

definition od_keys :: "('k \<times> 'v) list \<Rightarrow> 'k list" where
  "od_keys d = map fst d"

subsection \<open>The program entry\<close>

type_synonym sampled_waveform = "real list option list \<times> bool list option list"

record ProgramEntry =
  pe_channels :: "ChannelID option list"
  pe_markers :: "ChannelID option list"
  pe_amplitudes :: "real list"
  pe_offsets :: "real list"
  pe_voltage_transformations :: "(real list \<Rightarrow> real list) option list"
  pe_sample_rate :: rat
  pe_loop :: loop
  pe_waveforms :: "(wref \<times> sampled_waveform) list"

text \<open>
  The time-grid utility \<open>get_sample_times\<close> (qupulse.hardware.util) is not among the source
  files; it is a parameter of the model: from the waveforms and the sample rate it returns
  the shared time array and one segment length per waveform, or raises.
\<close>

type_synonym sample_times = "wref list \<Rightarrow> rat \<Rightarrow> error + (real list \<times> nat list)"

text \<open>
  The inner loop of \<open>_sample_waveforms\<close> over the hardware channel slots, one slot being
  \<open>(channel, trafo, amplitude, offset)\<close> of the \<open>zip\<close>:
  \<^verbatim>\<open>
  if channel is None:
      sampled_channels.append(None)
  else:
      sampled = waveform.get_sampled(channel, wf_time)
      if trafo:
          sampled = trafo(sampled)
      sampled = sampled - offset
      sampled /= amplitude
      sampled_channels.append(waveform.get_sampled(channel, wf_time))
  \<close>
  The array that is appended is the one a second call of \<open>get_sampled\<close> returns, not
  \<open>sampled\<close>. (Dividing by an amplitude of zero raises nothing in numpy; the quotient is
  not used.)
\<close>

fun sample_channels ::
  "waveform_obj \<Rightarrow> real list
    \<Rightarrow> (ChannelID option \<times> (real list \<Rightarrow> real list) option \<times> real \<times> real) list
    \<Rightarrow> error + real list option list" where
  "sample_channels w wf_time [] = Inr []"
| "sample_channels w wf_time ((channel, trafo, amplitude, offset) # slots) =
     (case channel of
        None \<Rightarrow>
          (case sample_channels w wf_time slots of
             Inl e \<Rightarrow> Inl e
           | Inr sampled_channels \<Rightarrow> Inr (None # sampled_channels))
      | Some c \<Rightarrow>
          (case get_sampled w c wf_time of
             Inl e \<Rightarrow> Inl e
           | Inr sampled0 \<Rightarrow>
               (let sampled1 = (case trafo of Some f \<Rightarrow> f sampled0 | None \<Rightarrow> sampled0);
                    sampled2 = map (\<lambda>x. x - offset) sampled1;
                    sampled = map (\<lambda>x. x / amplitude) sampled2
                in (case get_sampled w c wf_time of
                      Inl e \<Rightarrow> Inl e
                    | Inr appended \<Rightarrow>
                        (case sample_channels w wf_time slots of
                           Inl e \<Rightarrow> Inl e
                         | Inr sampled_channels \<Rightarrow> Inr (Some appended # sampled_channels))))))"

text \<open>
  The loop over the marker slots:
  \<^verbatim>\<open>
  if marker is None:
      sampled_markers.append(None)
  else:
      sampled_markers.append(waveform.get_sampled(marker, wf_time) != 0)
  \<close>
\<close>

fun sample_markers ::
  "waveform_obj \<Rightarrow> real list \<Rightarrow> ChannelID option list \<Rightarrow> error + bool list option list" where
  "sample_markers w wf_time [] = Inr []"
| "sample_markers w wf_time (marker # markers) =
     (case marker of
        None \<Rightarrow>
          (case sample_markers w wf_time markers of
             Inl e \<Rightarrow> Inl e
           | Inr sampled_markers \<Rightarrow> Inr (None # sampled_markers))
      | Some m \<Rightarrow>
          (case get_sampled w m wf_time of
             Inl e \<Rightarrow> Inl e
           | Inr s \<Rightarrow>
               (case sample_markers w wf_time markers of
                  Inl e \<Rightarrow> Inl e
                | Inr sampled_markers \<Rightarrow> Inr (Some (map (\<lambda>x. x \<noteq> 0) s) # sampled_markers))))"

text \<open>
  The outer loop over \<open>zip(waveforms, segment_lengths)\<close>; \<open>time_array[:segment_length]\<close> is
  \<open>take\<close>, and the four per-channel tuples are zipped as the source zips them.
\<close>

fun sample_each ::
  "store \<Rightarrow> real list
    \<Rightarrow> (ChannelID option \<times> (real list \<Rightarrow> real list) option \<times> real \<times> real) list
    \<Rightarrow> ChannelID option list \<Rightarrow> (wref \<times> nat) list \<Rightarrow> error + sampled_waveform list" where
  "sample_each st time_array slots markers [] = Inr []"
| "sample_each st time_array slots markers ((w, segment_length) # rest) =
     (let wf_time = take segment_length time_array in
      case sample_channels (st w) wf_time slots of
        Inl e \<Rightarrow> Inl e
      | Inr sampled_channels \<Rightarrow>
          (case sample_markers (st w) wf_time markers of
             Inl e \<Rightarrow> Inl e
           | Inr sampled_markers \<Rightarrow>
               (case sample_each st time_array slots markers rest of
                  Inl e \<Rightarrow> Inl e
                | Inr sampled_waveforms \<Rightarrow>
                    Inr ((sampled_channels, sampled_markers) # sampled_waveforms))))"

definition sample_waveforms ::
  "store \<Rightarrow> sample_times \<Rightarrow> ChannelID option list \<Rightarrow> ChannelID option list \<Rightarrow> real list
    \<Rightarrow> real list \<Rightarrow> (real list \<Rightarrow> real list) option list \<Rightarrow> rat \<Rightarrow> wref list
    \<Rightarrow> error + sampled_waveform list" where
  "sample_waveforms st get_sample_times channels markers amplitudes offsets
     voltage_transformations sample_rate waveforms =
     (case get_sample_times waveforms sample_rate of
        Inl e \<Rightarrow> Inl e
      | Inr (time_array, segment_lengths) \<Rightarrow>
          sample_each st time_array
            (zip channels (zip voltage_transformations (zip amplitudes offsets)))
            markers (zip waveforms segment_lengths))"

text \<open>
  The waveforms of a program entry that is given none:
  \<^verbatim>\<open>
  waveforms = OrderedDict((node.waveform, None)
                          for node in loop.get_depth_first_iterator() if node.is_leaf()).keys()
  \<close>
\<close>

definition leaf_waveforms :: "loop \<Rightarrow> wref list" where
  "leaf_waveforms lp = map waveform (filter is_leaf (get_depth_first_iterator lp))"

definition extracted_waveforms :: "store \<Rightarrow> loop \<Rightarrow> wref list" where
  "extracted_waveforms st lp =
     od_keys (OrderedDict (waveform_eq st) (map (\<lambda>w. (w, ())) (leaf_waveforms lp)))"

text \<open>
  \<open>ProgramEntry.__init__\<close>. The chained comparison of the \<open>assert\<close> is the conjunction of
  its three links; the markers take no part in it.
\<close>

definition ProgramEntry_init ::
  "store \<Rightarrow> sample_times \<Rightarrow> loop \<Rightarrow> ChannelID option list \<Rightarrow> ChannelID option list
    \<Rightarrow> real list \<Rightarrow> real list \<Rightarrow> (real list \<Rightarrow> real list) option list \<Rightarrow> rat
    \<Rightarrow> wref list option \<Rightarrow> error + ProgramEntry" where
  "ProgramEntry_init st get_sample_times lp channels markers amplitudes offsets
     voltage_transformations sample_rate waveforms_arg =
     (if \<not> (length channels = length amplitudes \<and> length amplitudes = length offsets
             \<and> length offsets = length voltage_transformations)
      then Inl AssertionError
      else
        (let waveforms = (case waveforms_arg of
                            None \<Rightarrow> extracted_waveforms st lp
                          | Some ws \<Rightarrow> ws)
         in case sample_waveforms st get_sample_times channels markers amplitudes offsets
                   voltage_transformations sample_rate waveforms of
              Inl e \<Rightarrow> Inl e
            | Inr sampled \<Rightarrow>
                Inr \<lparr> pe_channels = channels, pe_markers = markers,
                      pe_amplitudes = amplitudes, pe_offsets = offsets,
                      pe_voltage_transformations = voltage_transformations,
                      pe_sample_rate = sample_rate, pe_loop = lp,
                      pe_waveforms = OrderedDict (waveform_eq st) (zip waveforms sampled) \<rparr>))"

subsection \<open>Deduplication as the specification words it\<close>

text \<open>
  The statement side of the claim on the waveforms of a program entry: a list deduplicated
  under a key test, keeping of each group of equal elements the one seen first, in
  first-seen order. \<open>pairwise_unequal\<close> says that no element of a list equals a later one.
\<close>

fun first_seen :: "('a \<Rightarrow> 'a \<Rightarrow> bool) \<Rightarrow> 'a list \<Rightarrow> 'a list" where
  "first_seen eq [] = []"
| "first_seen eq (x # xs) = x # first_seen eq (filter (\<lambda>y. \<not> eq x y) xs)"

fun pairwise_unequal :: "('a \<Rightarrow> 'a \<Rightarrow> bool) \<Rightarrow> 'a list \<Rightarrow> bool" where
  "pairwise_unequal eq [] = True"
| "pairwise_unequal eq (x # xs) = ((\<forall>y \<in> set xs. \<not> eq x y) \<and> pairwise_unequal eq xs)"

subsection \<open>Concrete inputs\<close>

text \<open>
  A store in which the waveforms 0 and 2 are separate objects with equal compare keys and
  every waveform samples channel \<open>'A'\<close> as the constant 4; a store whose waveforms sample
  every channel as 0; a time-grid utility that gives every waveform one grid point; and a
  loop with the leaves 0, 1, 2, 1.
\<close>

definition example_store :: store where
  "example_store = (\<lambda>r. \<lparr> compare_key = r mod 2, duration = 1,
       get_sampled = (\<lambda>c t. if c = ChanName ''A'' then Inr (map (\<lambda>x. 4) t) else Inl KeyError) \<rparr>)"

definition silent_store :: store where
  "silent_store = (\<lambda>r. \<lparr> compare_key = r, duration = 1,
       get_sampled = (\<lambda>c t. Inr (map (\<lambda>x. 0) t)) \<rparr>)"

definition example_sample_times :: sample_times where
  "example_sample_times = (\<lambda>ws rate. Inr ([0], map (\<lambda>w. 1) ws))"

definition example_loop :: loop where
  "example_loop = Node [Leaf 0 1, Node [Leaf 1 2, Leaf 2 1] 3, Leaf 1 1] 1"

section \<open>The multi-channel waveform (module multi_channel_pulse_template)\<close>

text \<open>
  Modelled from the spec: the module that defines \<open>MultiChannelWaveform\<close> and the
  multi-channel pulse templates is not among the source files; only its tests are. A
  waveform is either a leaf, with an object identity, a compare key, an exact rational
  duration and a set of defined channels, or a multi-channel waveform that owns an ordered
  collection of component waveforms.
\<close>

datatype Waveform =
    LeafWaveform (lw_id: nat) (lw_compare_key: nat) (lw_duration: rat)
      (lw_defined_channels: "ChannelID set")
  | MultiChannelWaveform (sub_waveforms: "Waveform list")


fun defined_channels :: "Waveform \<Rightarrow> ChannelID set" where
  "defined_channels (LeafWaveform i k d cs) = cs"
| "defined_channels (MultiChannelWaveform ws) = \<Union> (set (map defined_channels ws))"

fun wf_duration :: "Waveform \<Rightarrow> rat" where
  "wf_duration (LeafWaveform i k d cs) = d"
| "wf_duration (MultiChannelWaveform []) = 0"
| "wf_duration (MultiChannelWaveform (w # ws)) = wf_duration w"


text \<open>
  Modelled from the spec: construction of a \<open>MultiChannelWaveform\<close>. Nested multi-channel
  inputs are flattened into a flat ordered list of leaves before the invariants are
  checked; an empty collection, components of unequal duration and components with
  overlapping channels are each rejected with a value error. Channel overlap is found by
  walking the components and accumulating the channels seen so far.
\<close>

fun flatten_waveform :: "Waveform \<Rightarrow> Waveform list" where
  "flatten_waveform (LeafWaveform i k d cs) = [LeafWaveform i k d cs]"
| "flatten_waveform (MultiChannelWaveform ws) = concat (map flatten_waveform ws)"

definition flatten_sub_waveforms :: "Waveform list \<Rightarrow> Waveform list" where
  "flatten_sub_waveforms ws = concat (map flatten_waveform ws)"

fun collect_channels :: "ChannelID set \<Rightarrow> Waveform list \<Rightarrow> error + ChannelID set" where
  "collect_channels acc [] = Inr acc"
| "collect_channels acc (w # ws) =
     (if defined_channels w \<inter> acc \<noteq> {} then Inl ValueError
      else collect_channels (acc \<union> defined_channels w) ws)"

definition MultiChannelWaveform_init :: "Waveform list \<Rightarrow> error + Waveform" where
  "MultiChannelWaveform_init ws =
     (case flatten_sub_waveforms ws of
        [] \<Rightarrow> Inl ValueError
      | w # rest \<Rightarrow>
          if \<not> list_all (\<lambda>v. wf_duration v = wf_duration w) rest then Inl ValueError
          else (case collect_channels {} (w # rest) of
                  Inl e \<Rightarrow> Inl e
                | Inr cs \<Rightarrow> Inr (MultiChannelWaveform (w # rest))))"

text \<open>
  Modelled from the spec: \<open>get_subset_for_channels\<close>. The channels must be a subset of
  the defined channels, else a not-found error. A multi-channel waveform returns the
  component whose channel set is exactly the requested one when there is one, and else a
  new \<open>MultiChannelWaveform\<close> over the components that hold a requested channel. A leaf
  restricted to some of its channels is the leaf with the narrower channel set.
\<close>

fun get_subset_for_channels :: "Waveform \<Rightarrow> ChannelID set \<Rightarrow> error + Waveform" where
  "get_subset_for_channels (LeafWaveform i k d cs) channels =
     (if \<not> channels \<subseteq> cs then Inl KeyError else Inr (LeafWaveform i k d channels))"
| "get_subset_for_channels (MultiChannelWaveform ws) channels =
     (if \<not> channels \<subseteq> defined_channels (MultiChannelWaveform ws) then Inl KeyError
      else (case find (\<lambda>w. defined_channels w = channels) ws of
              Some w \<Rightarrow> Inr w
            | None \<Rightarrow>
                MultiChannelWaveform_init
                  (filter (\<lambda>w. defined_channels w \<inter> channels \<noteq> {}) ws)))"

text \<open>
  The words of the claims on waveforms: a list of waveforms with pairwise disjoint channel
  sets, a leaf, and a waveform that satisfies the invariants of its class (a multi-channel
  waveform is not empty, its components are leaves with pairwise disjoint channels and
  one duration).
\<close>

fun disjoint_channels :: "Waveform list \<Rightarrow> bool" where
  "disjoint_channels [] = True"
| "disjoint_channels (w # ws) =
     ((\<forall>v \<in> set ws. defined_channels w \<inter> defined_channels v = {}) \<and> disjoint_channels ws)"

fun is_leaf_waveform :: "Waveform \<Rightarrow> bool" where
  "is_leaf_waveform (LeafWaveform i k d cs) = True"
| "is_leaf_waveform (MultiChannelWaveform ws) = False"

fun wellformed :: "Waveform \<Rightarrow> bool" where
  "wellformed (LeafWaveform i k d cs) = True"
| "wellformed (MultiChannelWaveform ws) =
     (ws \<noteq> [] \<and> list_all is_leaf_waveform ws \<and> disjoint_channels ws
      \<and> list_all (\<lambda>v. wf_duration v = wf_duration (hd ws)) ws)"

text \<open>The waveforms of \<open>test_init_several_channels\<close>.\<close>

definition dwf_a :: Waveform where
  "dwf_a = LeafWaveform 0 10 (11 / 5) {ChanName ''A''}"

definition dwf_b :: Waveform where
  "dwf_b = LeafWaveform 1 11 (11 / 5) {ChanName ''B''}"

definition dwf_c :: Waveform where
  "dwf_c = LeafWaveform 2 12 (23 / 10) {ChanName ''C''}"

definition dwf_c_valid :: Waveform where
  "dwf_c_valid = LeafWaveform 3 13 (11 / 5) {ChanName ''C''}"

section \<open>The multi-channel pulse templates (module multi_channel_pulse_template)\<close>

text \<open>
  Modelled from the spec: the expression evaluator is an external collaborator. An
  expression has its symbolic form (two durations are the same only if they are the same
  symbolic expression), the names it refers to, and its value under a parameter binding.
\<close>

record expression =
  ex_symbol :: string
  ex_variables :: "string set"
  ex_evaluate :: "(string \<rightharpoonup> real) \<Rightarrow> real"

text \<open>
  Modelled from the spec: a pulse template exposes its parameter names, its defined
  channels, its duration (an expression), whether it is atomic, \<open>is_interruptable\<close> and
  \<open>requires_stop\<close> of a parameter binding and a condition binding; \<open>pt_leaf_waveforms\<close>
  gives the leaf waveforms that sequencing the template under a parameter binding yields
  (one for an atomic template). The type \<open>'c\<close> is that of condition bindings.
\<close>

record 'c pulse_template =
  pt_parameter_names :: "string set"
  pt_defined_channels :: "ChannelID set"
  pt_duration :: expression
  pt_atomic :: bool
  pt_is_interruptable :: bool
  pt_requires_stop :: "(string \<rightharpoonup> real) \<Rightarrow> 'c \<Rightarrow> bool"
  pt_leaf_waveforms :: "(string \<rightharpoonup> real) \<Rightarrow> Waveform list"

text \<open>
  Modelled from the spec: a \<open>MappingTemplate\<close> wraps an inner template with a parameter
  mapping (inner parameter name to an expression over outer names) and a channel mapping
  (inner channel to outer channel). Its parameter names are the names its mapping
  expressions refer to, its channels the images of the inner channels (a channel without
  an entry keeps its name), and it evaluates \<open>requires_stop\<close> of the inner template on
  the mapped parameter bindings.
\<close>

record 'c MappingTemplate =
  mt_template :: "'c pulse_template"
  mt_parameter_mapping :: "string \<rightharpoonup> expression"
  mt_channel_mapping :: "ChannelID \<rightharpoonup> ChannelID"

definition mt_parameter_names :: "'c MappingTemplate \<Rightarrow> string set" where
  "mt_parameter_names mt =
     (\<Union>p \<in> pt_parameter_names (mt_template mt).
        case mt_parameter_mapping mt p of Some e \<Rightarrow> ex_variables e | None \<Rightarrow> {})"

definition mt_defined_channels :: "'c MappingTemplate \<Rightarrow> ChannelID set" where
  "mt_defined_channels mt =
     (\<lambda>ch. case mt_channel_mapping mt ch of Some c \<Rightarrow> c | None \<Rightarrow> ch)
       ` pt_defined_channels (mt_template mt)"

definition map_parameters :: "'c MappingTemplate \<Rightarrow> (string \<rightharpoonup> real) \<Rightarrow> (string \<rightharpoonup> real)" where
  "map_parameters mt parameters =
     (\<lambda>p. if p \<in> pt_parameter_names (mt_template mt)
          then (case mt_parameter_mapping mt p of
                  Some e \<Rightarrow> Some (ex_evaluate e parameters)
                | None \<Rightarrow> None)
          else None)"

definition mt_requires_stop :: "'c MappingTemplate \<Rightarrow> (string \<rightharpoonup> real) \<Rightarrow> 'c \<Rightarrow> bool" where
  "mt_requires_stop mt parameters conditions =
     pt_requires_stop (mt_template mt) (map_parameters mt parameters) conditions"

text \<open>
  Modelled from the spec: \<open>MultiChannelPulseTemplate.requires_stop\<close> is the logical OR over
  the sub-templates, each evaluated with its mapped parameter bindings; as in a loop that
  stops at the first sub-template that answers true.
\<close>

record 'c MultiChannelPulseTemplate =
  mc_subtemplates :: "'c MappingTemplate list"
  mc_parameter_names :: "string set"
  mc_atomicity :: bool

fun any_requires_stop :: "'c MappingTemplate list \<Rightarrow> (string \<rightharpoonup> real) \<Rightarrow> 'c \<Rightarrow> bool" where
  "any_requires_stop [] parameters conditions = False"
| "any_requires_stop (st # sts) parameters conditions =
     (if mt_requires_stop st parameters conditions then True
      else any_requires_stop sts parameters conditions)"

definition requires_stop :: "'c MultiChannelPulseTemplate \<Rightarrow> (string \<rightharpoonup> real) \<Rightarrow> 'c \<Rightarrow> bool" where
  "requires_stop self parameters conditions =
     any_requires_stop (mc_subtemplates self) parameters conditions"

text \<open>
  Modelled from the spec: the validations of the two composite constructors, on
  sub-templates already normalised into \<open>MappingTemplate\<close>s. The channel sets after
  mapping must be pairwise disjoint (channel-mapping error). The declared
  \<open>external_parameters\<close> must equal the parameter names used after mapping together with
  the names the parameter constraints refer to: a used name that is not declared is a
  missing-parameter-declaration error, a declared name that is not used a
  missing-mapping error. \<open>MultiChannelPulseTemplate\<close> rejects the empty composition and
  then checks channels and parameters. \<open>AtomicMultiChannelPulseTemplate\<close> validates in
  the order the spec gives: empty input, a non-atomic inner template (type error), channel
  overlap, disagreeing duration expressions (value error), parameters (when
  \<open>external_parameters\<close> is given).
\<close>

fun check_channel_overlap :: "ChannelID set \<Rightarrow> 'c MappingTemplate list \<Rightarrow> error + ChannelID set" where
  "check_channel_overlap acc [] = Inr acc"
| "check_channel_overlap acc (st # sts) =
     (if mt_defined_channels st \<inter> acc \<noteq> {} then Inl ChannelMappingException
      else check_channel_overlap (acc \<union> mt_defined_channels st) sts)"

definition check_external_parameters :: "string set \<Rightarrow> string set \<Rightarrow> error + unit" where
  "check_external_parameters used external_parameters =
     (if \<not> used \<subseteq> external_parameters then Inl MissingParameterDeclarationException
      else if \<not> external_parameters \<subseteq> used then Inl MissingMappingException
      else Inr ())"

definition used_parameters :: "'c MappingTemplate list \<Rightarrow> expression list \<Rightarrow> string set" where
  "used_parameters subtemplates parameter_constraints =
     \<Union> (set (map mt_parameter_names subtemplates))
     \<union> \<Union> (set (map ex_variables parameter_constraints))"

definition MultiChannelPulseTemplate_init ::
  "'c MappingTemplate list \<Rightarrow> string set \<Rightarrow> error + 'c MultiChannelPulseTemplate" where
  "MultiChannelPulseTemplate_init subtemplates external_parameters =
     (if subtemplates = [] then Inl ValueError
      else (case check_channel_overlap {} subtemplates of
              Inl e \<Rightarrow> Inl e
            | Inr channels \<Rightarrow>
                (case check_external_parameters
                        (used_parameters subtemplates []) external_parameters of
                   Inl e \<Rightarrow> Inl e
                 | Inr u \<Rightarrow>
                     Inr \<lparr> mc_subtemplates = subtemplates,
                           mc_parameter_names = external_parameters,
                           mc_atomicity = False \<rparr>)))"

record 'c AtomicMultiChannelPulseTemplate =
  amc_subtemplates :: "'c MappingTemplate list"
  amc_parameter_names :: "string set"
  amc_duration :: expression

definition AtomicMultiChannelPulseTemplate_init ::
  "'c MappingTemplate list \<Rightarrow> string set option \<Rightarrow> expression list
    \<Rightarrow> error + 'c AtomicMultiChannelPulseTemplate" where
  "AtomicMultiChannelPulseTemplate_init subtemplates external_parameters parameter_constraints =
     (case subtemplates of
        [] \<Rightarrow> Inl ValueError
      | st # rest \<Rightarrow>
          if \<not> list_all (\<lambda>s. pt_atomic (mt_template s)) (st # rest) then Inl TypeError
          else (case check_channel_overlap {} (st # rest) of
                  Inl e \<Rightarrow> Inl e
                | Inr channels \<Rightarrow>
                    if \<not> list_all (\<lambda>s. ex_symbol (pt_duration (mt_template s))
                                        = ex_symbol (pt_duration (mt_template st))) rest
                    then Inl ValueError
                    else
                      (let used = used_parameters (st # rest) parameter_constraints
                       in case external_parameters of
                            None \<Rightarrow>
                              Inr \<lparr> amc_subtemplates = st # rest, amc_parameter_names = used,
                                    amc_duration = pt_duration (mt_template st) \<rparr>
                          | Some declared \<Rightarrow>
                              (case check_external_parameters used declared of
                                 Inl e \<Rightarrow> Inl e
                               | Inr u \<Rightarrow>
                                   Inr \<lparr> amc_subtemplates = st # rest,
                                         amc_parameter_names = declared,
                                         amc_duration = pt_duration (mt_template st) \<rparr>))))"

text \<open>The words of the claim on the constructors: pairwise disjoint mapped channel sets.\<close>

fun disjoint_template_channels :: "'c MappingTemplate list \<Rightarrow> bool" where
  "disjoint_template_channels [] = True"
| "disjoint_template_channels (st # sts) =
     ((\<forall>s \<in> set sts. mt_defined_channels st \<inter> mt_defined_channels s = {})
      \<and> disjoint_template_channels sts)"











subsection \<open>Concrete templates of the tests\<close>

text \<open>
  The dummies of the test file: expressions that are a name or a constant, a template with
  a constant answer to \<open>requires_stop\<close>, a template wrapped with the identity mapping (a
  plain template given to a composite) or with a renaming of one parameter and one channel,
  and the inputs of \<open>test_external_parameters\<close>, \<open>test_external_parameter_error\<close>,
  \<open>test_channel_intersection\<close>, \<open>test_requires_stop_true_mapped_parameters\<close> and the two
  \<open>test_build_sequence\<close> tests. \<open>stops_below_zero\<close> requires a stop when its parameter
  \<open>foo\<close> is negative. \<open>PulseTemplateStub\<close> is the tests' template that is not atomic;
  \<open>two_step\<close> is such a template, one that sequences into two leaf waveforms one after
  the other; \<open>pair_ab\<close> is an atomic template whose one waveform is a multi-channel
  waveform.
\<close>

definition var_expression :: "string \<Rightarrow> expression" where
  "var_expression n =
     \<lparr> ex_symbol = n, ex_variables = {n},
       ex_evaluate = (\<lambda>b. case b n of Some v \<Rightarrow> v | None \<Rightarrow> 0) \<rparr>"

definition DummyPulseTemplate ::
  "string set \<Rightarrow> ChannelID set \<Rightarrow> expression \<Rightarrow> bool \<Rightarrow> unit pulse_template" where
  "DummyPulseTemplate names channels dur stop =
     \<lparr> pt_parameter_names = names, pt_defined_channels = channels,
       pt_duration = dur, pt_atomic = True, pt_is_interruptable = True,
       pt_requires_stop = (\<lambda>p c. stop), pt_leaf_waveforms = (\<lambda>p. []) \<rparr>"

definition renamed :: "unit pulse_template \<Rightarrow> string \<Rightarrow> string \<Rightarrow> ChannelID \<Rightarrow> ChannelID
    \<Rightarrow> unit MappingTemplate" where
  "renamed pt p pp c cc =
     \<lparr> mt_template = pt, mt_parameter_mapping = [p \<mapsto> var_expression pp],
       mt_channel_mapping = [c \<mapsto> cc] \<rparr>"

definition wrapped :: "unit pulse_template \<Rightarrow> unit MappingTemplate" where
  "wrapped pt =
     \<lparr> mt_template = pt,
       mt_parameter_mapping =
         (\<lambda>p. if p \<in> pt_parameter_names pt then Some (var_expression p) else None),
       mt_channel_mapping = Map.empty \<rparr>"



definition sub1 :: "unit MappingTemplate" where
  "sub1 = renamed (DummyPulseTemplate {''p1''} {ChanName ''c1''} (var_expression ''t'') True)
            ''p1'' ''pp1'' (ChanName ''c1'') (ChanName ''cc1'')"

definition sub2 :: "unit MappingTemplate" where
  "sub2 = renamed (DummyPulseTemplate {''p2''} {ChanName ''c2''} (var_expression ''t'') False)
            ''p2'' ''pp2'' (ChanName ''c2'') (ChanName ''cc2'')"

definition sub3 :: "unit MappingTemplate" where
  "sub3 = renamed (DummyPulseTemplate {''p3''} {ChanName ''c3''} (var_expression ''t'') False)
            ''p3'' ''pp3'' (ChanName ''c3'') (ChanName ''cc3'')"

definition sub3_on_cc1 :: "unit MappingTemplate" where
  "sub3_on_cc1 = renamed (DummyPulseTemplate {''p3''} {ChanName ''c3''} (var_expression ''t'') False)
            ''p3'' ''pp3'' (ChanName ''c3'') (ChanName ''cc1'')"

definition st_ab :: "unit MappingTemplate" where
  "st_ab = wrapped (DummyPulseTemplate {''a'', ''b''} {ChanName ''A''} (var_expression ''t1'') False)"

definition st_ac :: "unit MappingTemplate" where
  "st_ac = wrapped (DummyPulseTemplate {''a'', ''c''} {ChanName ''B''} (var_expression ''t1'') False)"

definition a_less_d :: expression where
  "a_less_d = \<lparr> ex_symbol = ''a < d'', ex_variables = {''a'', ''d''},
     ex_evaluate = (\<lambda>b. case (b ''a'', b ''d'') of
                          (Some x, Some y) \<Rightarrow> (if x < y then 1 else 0) | other \<Rightarrow> 0) \<rparr>"

definition stops_below_zero :: "unit pulse_template" where
  "stops_below_zero =
     \<lparr> pt_parameter_names = {''foo''}, pt_defined_channels = {ChanName ''default''},
       pt_duration = var_expression ''t'', pt_atomic = True, pt_is_interruptable = True,
       pt_requires_stop = (\<lambda>p c. case p ''foo'' of Some v \<Rightarrow> v < 0 | None \<Rightarrow> False),
       pt_leaf_waveforms = (\<lambda>p. []) \<rparr>"

definition twice_bar :: expression where
  "twice_bar = \<lparr> ex_symbol = ''2*bar'', ex_variables = {''bar''},
     ex_evaluate = (\<lambda>b. case b ''bar'' of Some v \<Rightarrow> 2 * v | None \<Rightarrow> 0) \<rparr>"

definition rab_minus_5 :: expression where
  "rab_minus_5 = \<lparr> ex_symbol = ''rab-5'', ex_variables = {''rab''},
     ex_evaluate = (\<lambda>b. case b ''rab'' of Some v \<Rightarrow> v - 5 | None \<Rightarrow> 0) \<rparr>"

definition pulse_bar_rab :: "unit MultiChannelPulseTemplate" where
  "pulse_bar_rab =
     \<lparr> mc_subtemplates =
         [\<lparr> mt_template = stops_below_zero, mt_parameter_mapping = [''foo'' \<mapsto> twice_bar],
            mt_channel_mapping = [ChanName ''default'' \<mapsto> ChanName ''A''] \<rparr>,
          \<lparr> mt_template = stops_below_zero, mt_parameter_mapping = [''foo'' \<mapsto> rab_minus_5],
            mt_channel_mapping = [ChanName ''default'' \<mapsto> ChanName ''B''] \<rparr>],
       mc_parameter_names = {''bar'', ''rab''}, mc_atomicity = False \<rparr>"












section \<open>Theorems: class AWG\<close>

lemma awg_run_no_write:
  "list_all (\<lambda>op. \<not> is_write op) ops \<Longrightarrow> awg_run self ops = self"
proof (induction ops arbitrary: self)
  case Nil
  show ?case by simp
next
  case (Cons op ops)
  from Cons.prems have nw: "\<not> is_write op" and rest: "list_all (\<lambda>op. \<not> is_write op) ops"
    by simp_all
  from nw have "awg_step self op = self" by (cases op) simp_all
  with Cons.IH [OF rest] show ?case by simp
qed

text \<open>
  C9: a freshly constructed AWG reports the mode \<open>'ignore_offset'\<close>, whatever identifier
  the constructor was given (its only argument), and keeps reporting it through any
  sequence of operations of the base class that does not write the property.
\<close>

theorem C9_fresh_awg_ignores_offset:
  "amplitude_offset_handling (AWG_init ident) = PyStr ''ignore_offset''
   \<and> AWG_identifier (AWG_init ident) = ident
   \<and> (list_all (\<lambda>op. \<not> is_write op) ops \<longrightarrow>
        amplitude_offset_handling (awg_run (AWG_init ident) ops) = PyStr ''ignore_offset'')"
  by (simp add: awg_run_no_write amplitude_offset_handling_def AWG_identifier_def AWG_init_def
      IGNORE_OFFSET_def)

theorem C9_fresh_awg_ignores_offset_witness:
  "list_all (\<lambda>op. \<not> is_write op) [ReadIdentifier, Copy, ReadAmplitudeOffsetHandling, DeepCopy]
   \<and> amplitude_offset_handling
        (awg_run (AWG_init ''awg0'') [ReadIdentifier, Copy, ReadAmplitudeOffsetHandling, DeepCopy])
      = PyStr ''ignore_offset''"
  using C9_fresh_awg_ignores_offset
    [of "''awg0''" "[ReadIdentifier, Copy, ReadAmplitudeOffsetHandling, DeepCopy]"]
  by simp

text \<open>
  C7: assigning \<open>amplitude_offset_handling\<close> succeeds exactly for the two defined modes
  \<open>'ignore_offset'\<close> and \<open>'consider_offset'\<close>, and then the property reads back the assigned
  value; every other value raises \<open>ValueError\<close> and leaves the instance as it was.
\<close>

theorem C7_setter_validates:
  "(fst (set_amplitude_offset_handling self v) = Inr ()
      \<longleftrightarrow> v = PyStr ''ignore_offset'' \<or> v = PyStr ''consider_offset'')
   \<and> (v = PyStr ''ignore_offset'' \<or> v = PyStr ''consider_offset'' \<longrightarrow>
        amplitude_offset_handling (snd (set_amplitude_offset_handling self v)) = v
        \<and> AWG_identifier (snd (set_amplitude_offset_handling self v)) = AWG_identifier self)
   \<and> (v \<noteq> PyStr ''ignore_offset'' \<and> v \<noteq> PyStr ''consider_offset'' \<longrightarrow>
        set_amplitude_offset_handling self v = (Inl ValueError, self))"
  by (auto simp: set_amplitude_offset_handling_def valid_modes_def IGNORE_OFFSET_def
      CONSIDER_OFFSET_def amplitude_offset_handling_def AWG_identifier_def)

theorem C7_setter_validates_witness:
  "fst (set_amplitude_offset_handling (AWG_init ''awg0'') (PyStr ''consider_offset'')) = Inr ()
   \<and> amplitude_offset_handling
        (snd (set_amplitude_offset_handling (AWG_init ''awg0'') (PyStr ''consider_offset'')))
      = PyStr ''consider_offset''
   \<and> set_amplitude_offset_handling (AWG_init ''awg0'') (PyStr ''optimized'')
      = (Inl ValueError, AWG_init ''awg0'')
   \<and> set_amplitude_offset_handling (AWG_init ''awg0'') PyNone
      = (Inl ValueError, AWG_init ''awg0'')"
  using C7_setter_validates [of "AWG_init ''awg0''" "PyStr ''consider_offset''"]
    C7_setter_validates [of "AWG_init ''awg0''" "PyStr ''optimized''"]
    C7_setter_validates [of "AWG_init ''awg0''" PyNone]
  by simp

section \<open>Theorems: class ProgramEntry\<close>

subsection \<open>The ordered dictionary\<close>

lemma od_store_keys:
  "od_keys (od_store eq d k v) =
     (if \<exists>k' \<in> set (od_keys d). eq k' k then od_keys d else od_keys d @ [k])"
proof (induction d)
  case Nil
  show ?case by (simp add: od_keys_def)
next
  case (Cons p d)
  obtain k' v' where p: "p = (k', v')" by (cases p)
  show ?case using Cons.IH by (cases "eq k' k") (simp_all add: p od_keys_def)
qed

lemma foldl_od_store_keys:
  "od_keys (foldl (\<lambda>d (k, v). od_store eq d k v) d ps) =
   od_keys d @ first_seen eq (filter (\<lambda>y. \<forall>k \<in> set (od_keys d). \<not> eq k y) (map fst ps))"
proof (induction ps arbitrary: d)
  case Nil
  show ?case by simp
next
  case (Cons p ps)
  obtain k v where p: "p = (k, v)" by (cases p)
  show ?case
  proof (cases "\<exists>k' \<in> set (od_keys d). eq k' k")
    case True
    then show ?thesis using Cons.IH [of "od_store eq d k v"] by (auto simp: p od_store_keys)
  next
    case False
    have "filter (\<lambda>y. \<forall>k' \<in> set (od_keys d @ [k]). \<not> eq k' y) (map fst ps)
        = filter (\<lambda>y. \<not> eq k y) (filter (\<lambda>y. \<forall>k' \<in> set (od_keys d). \<not> eq k' y) (map fst ps))"
      by (auto intro: filter_cong)
    then show ?thesis using False Cons.IH [of "od_store eq d k v"] by (simp add: p od_store_keys)
  qed
qed

lemma OrderedDict_keys: "od_keys (OrderedDict eq ps) = first_seen eq (map fst ps)"
  using foldl_od_store_keys [of eq "[]" ps] by (simp add: OrderedDict_def od_keys_def)

lemma first_seen_set_subset: "set (first_seen eq xs) \<subseteq> set xs"
proof (induction eq xs rule: first_seen.induct)
  case (1 eq)
  show ?case by simp
next
  case (2 eq x xs)
  have "set (filter (\<lambda>y. \<not> eq x y) xs) \<subseteq> set xs" by simp
  with "2.IH" have "set (first_seen eq (filter (\<lambda>y. \<not> eq x y) xs)) \<subseteq> set xs"
    by (rule subset_trans)
  then show ?case by (simp add: subset_insertI2)
qed

lemma first_seen_pairwise_unequal: "pairwise_unequal eq (first_seen eq xs)"
proof (induction eq xs rule: first_seen.induct)
  case (1 eq)
  show ?case by simp
next
  case (2 eq x xs)
  have "set (first_seen eq (filter (\<lambda>y. \<not> eq x y) xs)) \<subseteq> set (filter (\<lambda>y. \<not> eq x y) xs)"
    by (rule first_seen_set_subset)
  then have "\<forall>y \<in> set (first_seen eq (filter (\<lambda>y. \<not> eq x y) xs)). \<not> eq x y"
    by fastforce
  then have "(\<forall>y \<in> set (first_seen eq (filter (\<lambda>y. \<not> eq x y) xs)). \<not> eq x y)
      \<and> pairwise_unequal eq (first_seen eq (filter (\<lambda>y. \<not> eq x y) xs))"
    using "2.IH" by (rule conjI)
  then show ?case unfolding first_seen.simps pairwise_unequal.simps .
qed

lemma first_seen_fixed: "pairwise_unequal eq xs \<Longrightarrow> first_seen eq xs = xs"
proof (induction xs)
  case Nil
  show ?case by simp
next
  case (Cons x xs)
  from Cons.prems have "\<forall>y \<in> set xs. \<not> eq x y" and rest: "pairwise_unequal eq xs"
    by simp_all
  then have "filter (\<lambda>y. \<not> eq x y) xs = xs" by (simp add: filter_id_conv)
  with Cons.IH [OF rest] show ?case by simp
qed

lemma first_seen_subseq: "subseq (first_seen eq xs) xs"
proof (induction eq xs rule: first_seen.induct)
  case (1 eq)
  show ?case by simp
next
  case (2 eq x xs)
  have "subseq (filter (\<lambda>y. \<not> eq x y) xs) xs" by simp
  with "2.IH" have "subseq (first_seen eq (filter (\<lambda>y. \<not> eq x y) xs)) xs"
    by (rule subseq_order.trans)
  then show ?case by simp
qed

lemma first_seen_covers:
  "(\<And>a. eq a a) \<Longrightarrow> x \<in> set xs \<Longrightarrow> \<exists>k \<in> set (first_seen eq xs). eq k x"
proof (induction eq xs rule: first_seen.induct)
  case (1 eq)
  then show ?case by simp
next
  case (2 eq y ys)
  show ?case
  proof (cases "eq y x")
    case True
    then show ?thesis by (intro bexI [of _ y]) simp_all
  next
    case False
    with "2.prems"(1) have "x \<noteq> y" by blast
    with "2.prems"(2) False have "x \<in> set (filter (\<lambda>z. \<not> eq y z) ys)" by simp
    from "2.IH" [OF "2.prems"(1) this]
    obtain k where "k \<in> set (first_seen eq (filter (\<lambda>z. \<not> eq y z) ys))" and "eq k x"
      by blast
    then show ?thesis by (intro bexI [of _ k]) simp_all
  qed
qed

subsection \<open>Sampling\<close>

lemma sample_channels_raw:
  "sample_channels w t slots = Inr r \<Longrightarrow>
   r = map (\<lambda>(c, f, a, off). case c of None \<Rightarrow> None
            | Some ch \<Rightarrow> (case get_sampled w ch t of Inr s \<Rightarrow> Some s | Inl e \<Rightarrow> None)) slots"
  by (induction w t slots arbitrary: r rule: sample_channels.induct)
     (auto split: option.splits sum.splits simp: Let_def)

lemma sample_channels_total:
  assumes "\<And>c t. \<exists>s. get_sampled w c t = Inr s"
  shows "\<exists>r. sample_channels w wf_time slots = Inr r"
proof (induction slots)
  case Nil
  show ?case by simp
next
  case (Cons slot slots)
  obtain channel trafo amplitude offset where slot: "slot = (channel, trafo, amplitude, offset)"
    by (cases slot) auto
  from Cons obtain r where r: "sample_channels w wf_time slots = Inr r" by blast
  show ?case
  proof (cases channel)
    case None
    with r slot show ?thesis by simp
  next
    case (Some c)
    from assms obtain s where "get_sampled w c wf_time = Inr s" by blast
    with r slot Some show ?thesis by (simp add: Let_def)
  qed
qed

lemma sample_markers_total:
  assumes "\<And>c t. \<exists>s. get_sampled w c t = Inr s"
  shows "\<exists>r. sample_markers w wf_time markers = Inr r"
proof (induction markers)
  case Nil
  show ?case by simp
next
  case (Cons marker markers)
  from Cons obtain r where r: "sample_markers w wf_time markers = Inr r" by blast
  show ?case
  proof (cases marker)
    case None
    with r show ?thesis by simp
  next
    case (Some m)
    from assms obtain s where "get_sampled w m wf_time = Inr s" by blast
    with r Some show ?thesis by simp
  qed
qed

lemma sample_each_total:
  assumes "\<And>w c t. \<exists>s. get_sampled (st w) c t = Inr s"
  shows "\<exists>r. sample_each st time_array slots markers pairs = Inr r"
proof (induction pairs)
  case Nil
  show ?case by simp
next
  case (Cons p pairs)
  obtain w n where p: "p = (w, n)" by (cases p)
  from Cons obtain r where r: "sample_each st time_array slots markers pairs = Inr r" by blast
  from assms obtain sc where sc: "sample_channels (st w) (take n time_array) slots = Inr sc"
    using sample_channels_total [of "st w"] by blast
  from assms obtain sm where sm: "sample_markers (st w) (take n time_array) markers = Inr sm"
    using sample_markers_total [of "st w"] by blast
  from r sc sm show ?case by (simp add: p)
qed

lemma sample_each_length:
  "sample_each st time_array slots markers pairs = Inr r \<Longrightarrow> length r = length pairs"
proof (induction pairs arbitrary: r)
  case Nil
  then show ?case by simp
next
  case (Cons p pairs)
  obtain w n where p: "p = (w, n)" by (cases p)
  from Cons.prems obtain r' where r': "sample_each st time_array slots markers pairs = Inr r'"
    and "length r = Suc (length r')"
    by (auto simp: p Let_def split: sum.splits)
  with Cons.IH [OF r'] show ?case by simp
qed

lemma sample_waveforms_length:
  assumes "sample_waveforms st gst ch mk am off vt sr ws = Inr sampled"
    and "\<forall>t ls. gst ws sr = Inr (t, ls) \<longrightarrow> length ls = length ws"
  shows "length sampled = length ws"
proof -
  from assms(1) obtain t ls where g: "gst ws sr = Inr (t, ls)"
    and e: "sample_each st t (zip ch (zip vt (zip am off))) mk (zip ws ls) = Inr sampled"
    by (auto simp: sample_waveforms_def split: sum.splits)
  from assms(2) g have "length ls = length ws" by blast
  with sample_each_length [OF e] show ?thesis by simp
qed

lemma example_leaves: "leaf_waveforms example_loop = [0, 1, 2, 1]"
  by (simp add: leaf_waveforms_def example_loop_def)

lemma example_extracted: "extracted_waveforms example_store example_loop = [0, 1]"
  by (simp add: extracted_waveforms_def example_leaves OrderedDict_def od_keys_def
      waveform_eq_def example_store_def)

text \<open>
  C1: the claim is that the array stored for an assigned channel slot is the sample with
  the voltage transformation applied, the offset subtracted and the amplitude divided
  out. On one waveform that samples channel \<open>'A'\<close> as 4, with amplitude 2, offset 1
  and no transformation, the program entry stores \<open>[4]\<close>, the raw sample, where the three
  steps give \<open>[3/2]\<close>.
\<close>

theorem C1_stored_sample_is_raw:
  "map_sum id pe_waveforms
     (ProgramEntry_init example_store example_sample_times (Leaf 0 1)
        [Some (ChanName ''A'')] [] [2] [1] [None] 1 None)
   = Inr [(0, ([Some [4]], []))]
   \<and> map (\<lambda>x. x / 2) (map (\<lambda>x. x - 1) [4 :: real]) = [3 / 2]
   \<and> [4 :: real] \<noteq> [3 / 2]"
  by (simp add: ProgramEntry_init_def extracted_waveforms_def leaf_waveforms_def OrderedDict_def
     od_keys_def sample_waveforms_def example_store_def example_sample_times_def)

text \<open>
  C2, as stated (deduplication by object identity, so that two equal-valued but distinct
  leaf waveforms stay two entries), fails: the leaves 0 and 2 are distinct objects with
  equal compare keys, deduplication by identity keeps both, and the program entry keeps
  the first only.
\<close>

theorem C2_identity_dedup_counterexample:
  "leaf_waveforms (Node [Leaf 0 1, Leaf 2 1] 1) = [0, 2]
   \<and> first_seen (=) (leaf_waveforms (Node [Leaf 0 1, Leaf 2 1] 1)) = [0, 2]
   \<and> extracted_waveforms example_store (Node [Leaf 0 1, Leaf 2 1] 1) = [0]
   \<and> map_sum id (\<lambda>pe. od_keys (pe_waveforms pe))
        (ProgramEntry_init example_store example_sample_times (Node [Leaf 0 1, Leaf 2 1] 1)
           [Some (ChanName ''A'')] [] [2] [1] [None] 1 None) = Inr [0]"
  by (simp add: ProgramEntry_init_def extracted_waveforms_def leaf_waveforms_def OrderedDict_def
     od_keys_def sample_waveforms_def example_store_def example_sample_times_def waveform_eq_def)

text \<open>
  C2, amended: a program entry constructed without a waveforms argument samples the leaf
  waveforms of the loop deduplicated by waveform equality (the key test of the dictionary:
  the same object, or equal compare keys), in first-seen order: no entry equals a later
  one, the entries are a subsequence of the leaves, every leaf waveform equals an entry,
  and, when the time-grid utility returns one segment length per waveform, these entries
  are the keys of the stored mapping.
\<close>

theorem C2_waveforms_deduplicated_by_equality:
  "extracted_waveforms st lp = first_seen (waveform_eq st) (leaf_waveforms lp)
   \<and> pairwise_unequal (waveform_eq st) (extracted_waveforms st lp)
   \<and> subseq (extracted_waveforms st lp) (leaf_waveforms lp)
   \<and> (\<forall>w \<in> set (leaf_waveforms lp). \<exists>k \<in> set (extracted_waveforms st lp). waveform_eq st k w)
   \<and> (ProgramEntry_init st gst lp ch mk am off vt sr None = Inr pe
        \<and> (\<forall>t ls. gst (extracted_waveforms st lp) sr = Inr (t, ls)
              \<longrightarrow> length ls = length (extracted_waveforms st lp))
      \<longrightarrow> od_keys (pe_waveforms pe) = extracted_waveforms st lp)"
proof -
  have ex: "extracted_waveforms st lp = first_seen (waveform_eq st) (leaf_waveforms lp)"
    by (simp add: extracted_waveforms_def OrderedDict_keys comp_def)
  have pw: "pairwise_unequal (waveform_eq st) (extracted_waveforms st lp)"
    unfolding ex by (rule first_seen_pairwise_unequal)
  have sub: "subseq (extracted_waveforms st lp) (leaf_waveforms lp)"
    unfolding ex by (rule first_seen_subseq)
  have refl: "\<And>a. waveform_eq st a a" by (simp add: waveform_eq_def)
  have cov: "\<forall>w \<in> set (leaf_waveforms lp). \<exists>k \<in> set (extracted_waveforms st lp). waveform_eq st k w"
    unfolding ex using first_seen_covers [of "waveform_eq st", OF refl] by blast
  have keys: "od_keys (pe_waveforms pe) = extracted_waveforms st lp"
    if init: "ProgramEntry_init st gst lp ch mk am off vt sr None = Inr pe"
      and len: "\<forall>t ls. gst (extracted_waveforms st lp) sr = Inr (t, ls)
              \<longrightarrow> length ls = length (extracted_waveforms st lp)"
  proof -
    from init obtain sampled where
      s: "sample_waveforms st gst ch mk am off vt sr (extracted_waveforms st lp) = Inr sampled"
      and w: "pe_waveforms pe = OrderedDict (waveform_eq st) (zip (extracted_waveforms st lp) sampled)"
      by (auto simp: ProgramEntry_init_def Let_def split: if_splits sum.splits)
    from sample_waveforms_length [OF s len]
    have "map fst (zip (extracted_waveforms st lp) sampled) = extracted_waveforms st lp"
      by simp
    then have "od_keys (pe_waveforms pe) = first_seen (waveform_eq st) (extracted_waveforms st lp)"
      by (simp add: w OrderedDict_keys)
    also have "\<dots> = extracted_waveforms st lp" by (rule first_seen_fixed [OF pw])
    finally show ?thesis .
  qed
  from ex pw sub cov keys show ?thesis by blast
qed

theorem C2_waveforms_deduplicated_by_equality_witness:
  "extracted_waveforms example_store example_loop = [0, 1]
   \<and> leaf_waveforms example_loop = [0, 1, 2, 1]
   \<and> (\<exists>k \<in> set (extracted_waveforms example_store example_loop). waveform_eq example_store k 2)
   \<and> (\<exists>pe. ProgramEntry_init example_store example_sample_times example_loop
          [Some (ChanName ''A'')] [] [2] [1] [None] 1 None = Inr pe
        \<and> od_keys (pe_waveforms pe) = [0, 1])"
proof -
  have "\<exists>pe. ProgramEntry_init example_store example_sample_times example_loop
          [Some (ChanName ''A'')] [] [2] [1] [None] 1 None = Inr pe"
    by (simp add: ProgramEntry_init_def example_extracted)
       (simp add: sample_waveforms_def example_sample_times_def example_store_def)
  then obtain pe where pe: "ProgramEntry_init example_store example_sample_times example_loop
          [Some (ChanName ''A'')] [] [2] [1] [None] 1 None = Inr pe"
    by blast
  have len: "\<forall>t ls. example_sample_times (extracted_waveforms example_store example_loop) 1 = Inr (t, ls)
              \<longrightarrow> length ls = length (extracted_waveforms example_store example_loop)"
    by (auto simp: example_sample_times_def)
  have two: "2 \<in> set (leaf_waveforms example_loop)" by (simp add: example_leaves)
  from C2_waveforms_deduplicated_by_equality [of example_store example_loop example_sample_times
      "[Some (ChanName ''A'')]" "[]" "[2]" "[1]" "[None]" 1 pe] pe len two
  show ?thesis by (simp add: example_extracted example_leaves)
qed

text \<open>
  C10: construction aborts with an assertion failure when the lengths of channels,
  amplitudes, offsets and voltage transformations are not all equal; when they are equal
  the markers, of whatever length, do not make it fail: with a time-grid utility and
  waveforms that sample without error, construction succeeds and stores the markers as
  given.
\<close>

theorem C10_markers_length_unchecked:
  "(\<not> (length channels = length amplitudes \<and> length amplitudes = length offsets
        \<and> length offsets = length vts)
      \<longrightarrow> ProgramEntry_init st gst lp channels markers amplitudes offsets vts sr wa
            = Inl AssertionError)
   \<and> (length channels = length amplitudes \<and> length amplitudes = length offsets
        \<and> length offsets = length vts
        \<and> (\<forall>ws. \<exists>r. gst ws sr = Inr r) \<and> (\<forall>w c t. \<exists>s. get_sampled (st w) c t = Inr s)
      \<longrightarrow> (\<exists>pe. ProgramEntry_init st gst lp channels markers amplitudes offsets vts sr wa = Inr pe
                \<and> pe_markers pe = markers))"
proof (intro conjI impI)
  assume "\<not> (length channels = length amplitudes \<and> length amplitudes = length offsets
        \<and> length offsets = length vts)"
  then show "ProgramEntry_init st gst lp channels markers amplitudes offsets vts sr wa
            = Inl AssertionError"
    by (simp add: ProgramEntry_init_def)
next
  assume a: "length channels = length amplitudes \<and> length amplitudes = length offsets
        \<and> length offsets = length vts
        \<and> (\<forall>ws. \<exists>r. gst ws sr = Inr r) \<and> (\<forall>w c t. \<exists>s. get_sampled (st w) c t = Inr s)"
  define ws where "ws = (case wa of None \<Rightarrow> extracted_waveforms st lp | Some ws \<Rightarrow> ws)"
  from a obtain t ls where g: "gst ws sr = Inr (t, ls)" by (metis surj_pair)
  from a have tot: "\<And>w c t. \<exists>s. get_sampled (st w) c t = Inr s" by blast
  from sample_each_total [of st, OF tot]
  obtain sampled where
    "sample_each st t (zip channels (zip vts (zip amplitudes offsets))) markers (zip ws ls)
      = Inr sampled"
    by blast
  with g have "sample_waveforms st gst channels markers amplitudes offsets vts sr ws = Inr sampled"
    by (simp add: sample_waveforms_def)
  with a show "\<exists>pe. ProgramEntry_init st gst lp channels markers amplitudes offsets vts sr wa = Inr pe
                \<and> pe_markers pe = markers"
    by (simp add: ProgramEntry_init_def ws_def)
qed

theorem C10_markers_length_unchecked_witness:
  "length [Some (ChanName ''A'')] = length [2 :: real]
   \<and> length [Some (ChanName ''A''), None, Some (ChanName ''M'')] \<noteq> length [Some (ChanName ''A'')]
   \<and> (\<exists>pe. ProgramEntry_init silent_store example_sample_times (Leaf 0 1)
          [Some (ChanName ''A'')] [Some (ChanName ''A''), None, Some (ChanName ''M'')]
          [2] [1] [None] 1 None = Inr pe
        \<and> pe_markers pe = [Some (ChanName ''A''), None, Some (ChanName ''M'')])
   \<and> ProgramEntry_init silent_store example_sample_times (Leaf 0 1)
          [Some (ChanName ''A'')] [] [2, 3] [1] [None] 1 None = Inl AssertionError"
proof -
  have g: "\<forall>ws. \<exists>r. example_sample_times ws 1 = Inr r" by (simp add: example_sample_times_def)
  have s: "\<forall>w c t. \<exists>s. get_sampled (silent_store w) c t = Inr s" by (simp add: silent_store_def)
  from g s
    C10_markers_length_unchecked [where channels = "[Some (ChanName ''A'')]" and amplitudes = "[2]" and offsets = "[1]"
      and vts = "[None]" and st = silent_store and gst = example_sample_times and sr = 1
      and lp = "Leaf 0 1" and markers = "[Some (ChanName ''A''), None, Some (ChanName ''M'')]"
      and wa = None]
    C10_markers_length_unchecked [where channels = "[Some (ChanName ''A'')]" and amplitudes = "[2, 3]" and offsets = "[1]"
      and vts = "[None]" and st = silent_store and gst = example_sample_times and sr = 1
      and lp = "Leaf 0 1" and markers = "[]" and wa = None]
  show ?thesis by simp
qed

section \<open>Theorems: the multi-channel waveform\<close>

lemma collect_channels_Inr:
  "collect_channels acc ws = Inr cs \<longleftrightarrow>
     disjoint_channels ws \<and> (\<forall>w \<in> set ws. defined_channels w \<inter> acc = {})
     \<and> cs = acc \<union> \<Union> (set (map defined_channels ws))"
proof (induction ws arbitrary: acc)
  case Nil
  show ?case by auto
next
  case (Cons w ws)
  show ?case
  proof (cases "defined_channels w \<inter> acc = {}")
    case False
    then show ?thesis by auto
  next
    case True
    have "collect_channels acc (w # ws) = collect_channels (acc \<union> defined_channels w) ws"
      using True by simp
    also have "\<dots> = Inr cs \<longleftrightarrow>
      disjoint_channels ws \<and> (\<forall>v \<in> set ws. defined_channels v \<inter> (acc \<union> defined_channels w) = {})
      \<and> cs = (acc \<union> defined_channels w) \<union> \<Union> (set (map defined_channels ws))"
      by (rule Cons.IH)
    finally show ?thesis using True by (simp add: Int_Un_distrib Un_assoc) blast
  qed
qed

lemma collect_channels_error:
  "collect_channels acc ws = Inl e \<Longrightarrow> e = ValueError"
  by (induction ws arbitrary: acc) (auto split: if_splits)


lemma flatten_leaves: "list_all is_leaf_waveform ws \<Longrightarrow> concat (map flatten_waveform ws) = ws"
proof (induction ws)
  case Nil
  show ?case by simp
next
  case (Cons w ws)
  then show ?case by (cases w) simp_all
qed

lemma flatten_wellformed:
  "wellformed w \<Longrightarrow>
   flatten_waveform w = (case w of LeafWaveform i k d cs \<Rightarrow> [w] | MultiChannelWaveform ws \<Rightarrow> ws)"
  by (cases w) (simp_all add: flatten_leaves)

lemma flatten_wellformed_nonempty: "wellformed w \<Longrightarrow> flatten_waveform w \<noteq> []"
  by (cases w) (simp_all add: flatten_leaves)

lemma flatten_wellformed_disjoint: "wellformed w \<Longrightarrow> disjoint_channels (flatten_waveform w)"
  by (cases w) (simp_all add: flatten_leaves)

lemma flatten_wellformed_channels:
  "wellformed w \<Longrightarrow> \<Union> (set (map defined_channels (flatten_waveform w))) = defined_channels w"
  by (cases w) (simp_all add: flatten_leaves)

lemma flatten_wellformed_duration:
  assumes "wellformed w" and "v \<in> set (flatten_waveform w)"
  shows "wf_duration v = wf_duration w"
proof (cases w)
  case (LeafWaveform i k d cs)
  with assms show ?thesis by simp
next
  case (MultiChannelWaveform ws)
  with assms have ne: "ws \<noteq> []" and v: "v \<in> set ws"
    and d: "list_all (\<lambda>v. wf_duration v = wf_duration (hd ws)) ws"
    by (simp_all add: flatten_leaves)
  from d v have "wf_duration v = wf_duration (hd ws)" by (simp add: list_all_iff)
  moreover from ne have "wf_duration (MultiChannelWaveform ws) = wf_duration (hd ws)"
    by (cases ws) simp_all
  ultimately show ?thesis by (simp add: MultiChannelWaveform)
qed

lemma disjoint_channels_append:
  "disjoint_channels (xs @ ys) \<longleftrightarrow>
     disjoint_channels xs \<and> disjoint_channels ys
     \<and> (\<forall>x \<in> set xs. \<forall>y \<in> set ys. defined_channels x \<inter> defined_channels y = {})"
  by (induction xs) auto

lemma flatten_sub_waveforms_channels:
  "\<forall>w \<in> set ws. wellformed w \<Longrightarrow>
   \<Union> (set (map defined_channels (flatten_sub_waveforms ws)))
     = \<Union> (set (map defined_channels ws))"
proof (induction ws)
  case Nil
  show ?case by (simp add: flatten_sub_waveforms_def)
next
  case (Cons w ws)
  from Cons.prems have w: "wellformed w" and rest: "\<forall>w \<in> set ws. wellformed w" by simp_all
  from flatten_wellformed_channels [OF w] Cons.IH [OF rest]
  show ?case by (simp add: flatten_sub_waveforms_def)
qed

lemma flatten_sub_waveforms_disjoint:
  "\<forall>w \<in> set ws. wellformed w \<Longrightarrow>
   disjoint_channels (flatten_sub_waveforms ws) \<longleftrightarrow> disjoint_channels ws"
proof (induction ws)
  case Nil
  show ?case by (simp add: flatten_sub_waveforms_def)
next
  case (Cons w ws)
  from Cons.prems have w: "wellformed w" and rest: "\<forall>w \<in> set ws. wellformed w" by simp_all
  have fl: "flatten_sub_waveforms (w # ws) = flatten_waveform w @ flatten_sub_waveforms ws"
    by (simp add: flatten_sub_waveforms_def)
  have cw: "defined_channels w = (\<Union>x \<in> set (flatten_waveform w). defined_channels x)"
    using flatten_wellformed_channels [OF w] by simp
  have cr: "(\<Union>y \<in> set (flatten_sub_waveforms ws). defined_channels y)
      = (\<Union>v \<in> set ws. defined_channels v)"
    using flatten_sub_waveforms_channels [OF rest] by simp
  have cross: "(\<forall>x \<in> set (flatten_waveform w). \<forall>y \<in> set (flatten_sub_waveforms ws).
                 defined_channels x \<inter> defined_channels y = {})
      \<longleftrightarrow> (\<forall>v \<in> set ws. defined_channels w \<inter> defined_channels v = {})"
  proof -
    have "(\<forall>x \<in> set (flatten_waveform w). \<forall>y \<in> set (flatten_sub_waveforms ws).
                 defined_channels x \<inter> defined_channels y = {})
      \<longleftrightarrow> (\<Union>x \<in> set (flatten_waveform w). defined_channels x)
           \<inter> (\<Union>y \<in> set (flatten_sub_waveforms ws). defined_channels y) = {}"
      by blast
    also have "\<dots> \<longleftrightarrow> defined_channels w \<inter> (\<Union>v \<in> set ws. defined_channels v) = {}"
      by (simp only: cw [symmetric] cr)
    also have "\<dots> \<longleftrightarrow> (\<forall>v \<in> set ws. defined_channels w \<inter> defined_channels v = {})"
      by blast
    finally show ?thesis .
  qed
  show ?case
    by (simp only: fl disjoint_channels_append flatten_wellformed_disjoint [OF w]
        Cons.IH [OF rest] cross disjoint_channels.simps simp_thms conj_commute)
qed

lemma flatten_sub_waveforms_duration:
  assumes "\<forall>w \<in> set ws. wellformed w" and "v \<in> set (flatten_sub_waveforms ws)"
  shows "\<exists>w \<in> set ws. wf_duration v = wf_duration w"
proof -
  from assms(2) obtain w where w: "w \<in> set ws" and v: "v \<in> set (flatten_waveform w)"
    by (auto simp: flatten_sub_waveforms_def)
  from assms(1) w have "wellformed w" by blast
  from flatten_wellformed_duration [OF this v] w show ?thesis by blast
qed

lemma flatten_sub_waveforms_duration_rev:
  assumes "\<forall>w \<in> set ws. wellformed w" and "w \<in> set ws"
  shows "\<exists>v \<in> set (flatten_sub_waveforms ws). wf_duration v = wf_duration w"
proof -
  from assms have wf: "wellformed w" by blast
  from flatten_wellformed_nonempty [OF wf] obtain v where v: "v \<in> set (flatten_waveform w)"
    by (cases "flatten_waveform w") auto
  from v assms(2) have "v \<in> set (flatten_sub_waveforms ws)"
    by (auto simp: flatten_sub_waveforms_def)
  with flatten_wellformed_duration [OF wf v] show ?thesis by blast
qed

lemma MultiChannelWaveform_init_error:
  "MultiChannelWaveform_init ws = Inl e \<Longrightarrow> e = ValueError"
  by (auto simp: MultiChannelWaveform_init_def split: list.splits if_splits sum.splits
      dest: collect_channels_error)

lemma MultiChannelWaveform_init_Inr:
  "MultiChannelWaveform_init ws = Inr m \<longleftrightarrow>
     flatten_sub_waveforms ws \<noteq> []
     \<and> (\<forall>v \<in> set (flatten_sub_waveforms ws). wf_duration v = wf_duration (hd (flatten_sub_waveforms ws)))
     \<and> disjoint_channels (flatten_sub_waveforms ws)
     \<and> m = MultiChannelWaveform (flatten_sub_waveforms ws)"
proof (cases "flatten_sub_waveforms ws")
  case Nil
  then show ?thesis by (simp add: MultiChannelWaveform_init_def)
next
  case (Cons w rest)
  have c: "(\<exists>cs. collect_channels {} (w # rest) = Inr cs) \<longleftrightarrow> disjoint_channels (w # rest)"
    using collect_channels_Inr [of "{}" "w # rest"] by simp
  have init: "MultiChannelWaveform_init ws =
      (if \<not> list_all (\<lambda>v. wf_duration v = wf_duration w) rest then Inl ValueError
       else (case collect_channels {} (w # rest) of
               Inl e \<Rightarrow> Inl e
             | Inr cs \<Rightarrow> Inr (MultiChannelWaveform (w # rest))))"
    by (simp add: MultiChannelWaveform_init_def Cons del: collect_channels.simps)
  have dur: "(\<forall>v \<in> set (w # rest). wf_duration v = wf_duration (hd (w # rest)))
      \<longleftrightarrow> list_all (\<lambda>v. wf_duration v = wf_duration w) rest"
    by (simp add: list_all_iff)
  show ?thesis
  proof (cases "list_all (\<lambda>v. wf_duration v = wf_duration w) rest")
    case False
    with init dur show ?thesis by (simp only: Cons) simp
  next
    case True
    show ?thesis
    proof (cases "collect_channels {} (w # rest)")
      case (Inl e)
      with c have "\<not> disjoint_channels (w # rest)" by simp
      with Inl init True show ?thesis by (simp only: Cons) simp
    next
      case (Inr cs)
      with c have "disjoint_channels (w # rest)" by blast
      with Inr init True dur show ?thesis by (simp only: Cons) auto
    qed
  qed
qed

lemma flatten_sub_waveforms_leaves:
  "\<forall>w \<in> set ws. wellformed w \<Longrightarrow> list_all is_leaf_waveform (flatten_sub_waveforms ws)"
proof (induction ws)
  case Nil
  show ?case by (simp add: flatten_sub_waveforms_def)
next
  case (Cons w ws)
  from Cons.prems have w: "wellformed w" and rest: "\<forall>w \<in> set ws. wellformed w" by simp_all
  from w have "list_all is_leaf_waveform (flatten_waveform w)"
    by (cases w) (simp_all add: flatten_leaves)
  with Cons.IH [OF rest] show ?case by (simp add: flatten_sub_waveforms_def)
qed

lemma disjoint_channels_filter: "disjoint_channels ws \<Longrightarrow> disjoint_channels (filter P ws)"
  by (induction ws) auto

lemma wellformed_MultiChannelWaveform:
  "wellformed (MultiChannelWaveform ws) \<longleftrightarrow>
     ws \<noteq> [] \<and> (\<forall>w \<in> set ws. is_leaf_waveform w) \<and> disjoint_channels ws
     \<and> (\<forall>v \<in> set ws. wf_duration v = wf_duration (hd ws))"
  by (simp add: list_all_iff)

text \<open>
  C4: for waveforms that satisfy the invariants of their classes, construction of a
  \<open>MultiChannelWaveform\<close> from a non-empty collection with pairwise disjoint channel sets
  and one duration \<open>d\<close> succeeds, and the result has the union of the components' channels
  and the duration \<open>d\<close>; from the empty collection, a collection with two waveforms whose
  channels overlap, or one with two waveforms of unequal duration, it fails with a value
  error.
\<close>

theorem C4_MultiChannelWaveform_construction:
  assumes wf: "\<forall>w \<in> set ws. wellformed w"
  shows "(ws \<noteq> [] \<and> disjoint_channels ws \<and> (\<forall>w \<in> set ws. wf_duration w = d) \<longrightarrow>
           (\<exists>m. MultiChannelWaveform_init ws = Inr m \<and> wellformed m
                \<and> defined_channels m = (\<Union>w \<in> set ws. defined_channels w)
                \<and> wf_duration m = d))
       \<and> (ws = [] \<or> \<not> disjoint_channels ws
            \<or> (\<exists>a \<in> set ws. \<exists>b \<in> set ws. wf_duration a \<noteq> wf_duration b) \<longrightarrow>
           MultiChannelWaveform_init ws = Inl ValueError)"
proof (intro conjI impI)
  let ?subs = "flatten_sub_waveforms ws"
  assume ok: "ws \<noteq> [] \<and> disjoint_channels ws \<and> (\<forall>w \<in> set ws. wf_duration w = d)"
  then obtain w where w: "w \<in> set ws" by (cases ws) auto
  from flatten_sub_waveforms_duration_rev [OF wf w] have ne: "?subs \<noteq> []" by auto
  have dur: "\<forall>v \<in> set ?subs. wf_duration v = d"
  proof
    fix v
    assume "v \<in> set ?subs"
    from flatten_sub_waveforms_duration [OF wf this]
    obtain w where "w \<in> set ws" and "wf_duration v = wf_duration w" by blast
    with ok show "wf_duration v = d" by simp
  qed
  from ne have hd: "hd ?subs \<in> set ?subs" by simp
  with dur have dhd: "wf_duration (hd ?subs) = d" by blast
  from ok have dis: "disjoint_channels ?subs"
    by (simp add: flatten_sub_waveforms_disjoint [OF wf])
  have init: "MultiChannelWaveform_init ws = Inr (MultiChannelWaveform ?subs)"
    unfolding MultiChannelWaveform_init_Inr using ne dur dhd dis by simp
  have wfm: "wellformed (MultiChannelWaveform ?subs)"
    using ne dis dur dhd flatten_sub_waveforms_leaves [OF wf] by (simp add: list_all_iff)
  have ch: "defined_channels (MultiChannelWaveform ?subs) = (\<Union>w \<in> set ws. defined_channels w)"
    using flatten_sub_waveforms_channels [OF wf] by simp
  have "wf_duration (MultiChannelWaveform ?subs) = d"
    using ne dhd by (cases ?subs) simp_all
  with init wfm ch
  show "\<exists>m. MultiChannelWaveform_init ws = Inr m \<and> wellformed m
                \<and> defined_channels m = (\<Union>w \<in> set ws. defined_channels w)
                \<and> wf_duration m = d"
    by blast
next
  let ?subs = "flatten_sub_waveforms ws"
  assume bad: "ws = [] \<or> \<not> disjoint_channels ws
            \<or> (\<exists>a \<in> set ws. \<exists>b \<in> set ws. wf_duration a \<noteq> wf_duration b)"
  have "\<not> (\<exists>m. MultiChannelWaveform_init ws = Inr m)"
  proof
    assume "\<exists>m. MultiChannelWaveform_init ws = Inr m"
    then obtain m where "MultiChannelWaveform_init ws = Inr m" by blast
    then have ne: "?subs \<noteq> []"
      and dur: "\<forall>v \<in> set ?subs. wf_duration v = wf_duration (hd ?subs)"
      and dis: "disjoint_channels ?subs"
      unfolding MultiChannelWaveform_init_Inr by blast+
    from ne have "ws \<noteq> []" by (auto simp: flatten_sub_waveforms_def)
    moreover from dis have "disjoint_channels ws"
      by (simp add: flatten_sub_waveforms_disjoint [OF wf])
    moreover have "\<not> (\<exists>a \<in> set ws. \<exists>b \<in> set ws. wf_duration a \<noteq> wf_duration b)"
    proof
      assume "\<exists>a \<in> set ws. \<exists>b \<in> set ws. wf_duration a \<noteq> wf_duration b"
      then obtain a b where a: "a \<in> set ws" and b: "b \<in> set ws"
        and ab: "wf_duration a \<noteq> wf_duration b"
        by blast
      from flatten_sub_waveforms_duration_rev [OF wf a]
      obtain va where va: "va \<in> set ?subs" and da: "wf_duration va = wf_duration a" by blast
      from flatten_sub_waveforms_duration_rev [OF wf b]
      obtain vb where vb: "vb \<in> set ?subs" and db: "wf_duration vb = wf_duration b" by blast
      from dur va have "wf_duration va = wf_duration (hd ?subs)" by blast
      moreover from dur vb have "wf_duration vb = wf_duration (hd ?subs)" by blast
      ultimately have "wf_duration a = wf_duration b" using da db by simp
      with ab show False by simp
    qed
    ultimately show False using bad by blast
  qed
  then show "MultiChannelWaveform_init ws = Inl ValueError"
    using MultiChannelWaveform_init_error [of ws]
    by (cases "MultiChannelWaveform_init ws") auto
qed

theorem C4_MultiChannelWaveform_construction_witness:
  "(\<exists>m. MultiChannelWaveform_init [dwf_a, dwf_b] = Inr m
        \<and> defined_channels m = {ChanName ''A'', ChanName ''B''} \<and> wf_duration m = 11 / 5)
   \<and> (\<exists>m. MultiChannelWaveform_init [MultiChannelWaveform [dwf_a, dwf_b], dwf_c_valid] = Inr m
        \<and> defined_channels m = {ChanName ''A'', ChanName ''B'', ChanName ''C''}
        \<and> wf_duration m = 11 / 5)
   \<and> MultiChannelWaveform_init [dwf_a, dwf_c] = Inl ValueError
   \<and> MultiChannelWaveform_init [dwf_a, dwf_a] = Inl ValueError
   \<and> MultiChannelWaveform_init [] = Inl ValueError"
proof -
  have 1: "\<forall>w \<in> set [dwf_a, dwf_b]. wellformed w" by (simp add: dwf_a_def dwf_b_def)
  have 2: "\<forall>w \<in> set [MultiChannelWaveform [dwf_a, dwf_b], dwf_c_valid]. wellformed w"
    by (simp add: dwf_a_def dwf_b_def dwf_c_valid_def)
  have 3: "\<forall>w \<in> set [dwf_a, dwf_c]. wellformed w" by (simp add: dwf_a_def dwf_c_def)
  have 4: "\<forall>w \<in> set [dwf_a, dwf_a]. wellformed w" by (simp add: dwf_a_def)
  have 5: "\<forall>w \<in> set ([] :: Waveform list). wellformed w" by simp
  from C4_MultiChannelWaveform_construction [OF 1, of "11 / 5"] have a: "\<exists>m. MultiChannelWaveform_init [dwf_a, dwf_b] = Inr m
        \<and> defined_channels m = {ChanName ''A'', ChanName ''B''} \<and> wf_duration m = 11 / 5"
    by (auto simp: dwf_a_def dwf_b_def)
  from C4_MultiChannelWaveform_construction [OF 2, of "11 / 5"]
  have b: "\<exists>m. MultiChannelWaveform_init [MultiChannelWaveform [dwf_a, dwf_b], dwf_c_valid] = Inr m
        \<and> defined_channels m = {ChanName ''A'', ChanName ''B'', ChanName ''C''}
        \<and> wf_duration m = 11 / 5"
    by (auto simp: dwf_a_def dwf_b_def dwf_c_valid_def)
  from C4_MultiChannelWaveform_construction [OF 3, of 0] have c: "MultiChannelWaveform_init [dwf_a, dwf_c] = Inl ValueError"
    by (auto simp: dwf_a_def dwf_c_def)
  from C4_MultiChannelWaveform_construction [OF 4, of 0] have d: "MultiChannelWaveform_init [dwf_a, dwf_a] = Inl ValueError"
    by (simp add: dwf_a_def)
  from C4_MultiChannelWaveform_construction [OF 5, of 0] have e: "MultiChannelWaveform_init [] = Inl ValueError" by simp
  from a b c d e show ?thesis by blast
qed

lemma disjoint_channels_one_match:
  "disjoint_channels ws \<Longrightarrow> c \<in> set ws \<Longrightarrow>
   length (filter (\<lambda>w. defined_channels w \<inter> defined_channels c \<noteq> {}) ws) \<le> 1"
proof (induction ws)
  case Nil
  then show ?case by simp
next
  case (Cons w ws)
  from Cons.prems have dw: "\<forall>v \<in> set ws. defined_channels w \<inter> defined_channels v = {}"
    and dr: "disjoint_channels ws"
    by simp_all
  show ?case
  proof (cases "c \<in> set ws")
    case True
    with dw have "defined_channels w \<inter> defined_channels c = {}" by blast
    with Cons.IH [OF dr True] show ?thesis by simp
  next
    case False
    with Cons.prems have cw: "c = w" by simp
    from dw have "filter (\<lambda>v. defined_channels v \<inter> defined_channels w \<noteq> {}) ws = []"
      unfolding filter_empty_conv by blast
    then show ?thesis by (simp add: cw)
  qed
qed

text \<open>
  C5: on a multi-channel waveform that satisfies its invariants, \<open>get_subset_for_channels\<close>
  with the channel set of exactly one component returns that component itself (identity,
  compare key and all); with a subset of the defined channels that touches at least two
  components, it returns a new multi-channel waveform
  over exactly the components that hold a requested channel; with a channel that is not
  defined, it fails with a not-found error. (A subset that touches two components or more
  is no single component's channel set, the channel sets being disjoint.)
\<close>

theorem C5_get_subset_for_channels:
  assumes wf: "wellformed (MultiChannelWaveform ws)"
  shows "(c \<in> set ws \<and> (\<forall>c' \<in> set ws. defined_channels c' = defined_channels c \<longrightarrow> c' = c) \<longrightarrow>
            get_subset_for_channels (MultiChannelWaveform ws) (defined_channels c) = Inr c)
       \<and> (channels \<subseteq> defined_channels (MultiChannelWaveform ws)
            \<and> 2 \<le> length (filter (\<lambda>w. defined_channels w \<inter> channels \<noteq> {}) ws) \<longrightarrow>
            get_subset_for_channels (MultiChannelWaveform ws) channels
              = Inr (MultiChannelWaveform (filter (\<lambda>w. defined_channels w \<inter> channels \<noteq> {}) ws))
            \<and> wellformed (MultiChannelWaveform (filter (\<lambda>w. defined_channels w \<inter> channels \<noteq> {}) ws)))
       \<and> (\<not> channels \<subseteq> defined_channels (MultiChannelWaveform ws) \<longrightarrow>
            get_subset_for_channels (MultiChannelWaveform ws) channels = Inl KeyError)"
proof -
  let ?m = "filter (\<lambda>w. defined_channels w \<inter> channels \<noteq> {}) ws"
  have p1: "c \<in> set ws \<and> (\<forall>c' \<in> set ws. defined_channels c' = defined_channels c \<longrightarrow> c' = c) \<longrightarrow>
            get_subset_for_channels (MultiChannelWaveform ws) (defined_channels c) = Inr c"
  proof (rule impI)
  assume a: "c \<in> set ws \<and> (\<forall>c' \<in> set ws. defined_channels c' = defined_channels c \<longrightarrow> c' = c)"
  then have sub: "defined_channels c \<subseteq> defined_channels (MultiChannelWaveform ws)" by auto
  from a have "find (\<lambda>w. defined_channels w = defined_channels c) ws \<noteq> None"
    by (auto simp: find_None_iff)
  then obtain x where x: "find (\<lambda>w. defined_channels w = defined_channels c) ws = Some x"
    by blast
  then have "x \<in> set ws" and "defined_channels x = defined_channels c"
    by (auto simp: find_Some_iff)
  with a have "x = c" by blast
  with x sub show "get_subset_for_channels (MultiChannelWaveform ws) (defined_channels c) = Inr c"
    by simp
  qed
  have p2: "channels \<subseteq> defined_channels (MultiChannelWaveform ws)
            \<and> 2 \<le> length ?m \<longrightarrow>
            get_subset_for_channels (MultiChannelWaveform ws) channels
              = Inr (MultiChannelWaveform ?m)
            \<and> wellformed (MultiChannelWaveform ?m)"
  proof (rule impI)
  assume a: "channels \<subseteq> defined_channels (MultiChannelWaveform ws)
            \<and> 2 \<le> length ?m"
  from wf have wsd0: "disjoint_channels ws"
    unfolding wellformed_MultiChannelWaveform by blast
  have nomatch: "\<forall>c \<in> set ws. defined_channels c \<noteq> channels"
  proof
    fix c
    assume c: "c \<in> set ws"
    show "defined_channels c \<noteq> channels"
    proof
      assume "defined_channels c = channels"
      with disjoint_channels_one_match [OF wsd0 c] have "length ?m \<le> 1" by simp
      with a show False by simp
    qed
  qed
  then have none: "find (\<lambda>w. defined_channels w = channels) ws = None"
    unfolding find_None_iff by blast
  from a have ne: "?m \<noteq> []" by auto
  from wf have wsl: "\<forall>w \<in> set ws. is_leaf_waveform w" and wsd: "disjoint_channels ws"
    and dall: "\<forall>v \<in> set ws. wf_duration v = wf_duration (hd ws)"
    unfolding wellformed_MultiChannelWaveform by blast+
  from wsl have leaves: "list_all is_leaf_waveform ?m"
    unfolding list_all_iff by simp
  then have fl: "flatten_sub_waveforms ?m = ?m"
    unfolding flatten_sub_waveforms_def by (rule flatten_leaves)
  from wsd have dis: "disjoint_channels ?m" by (rule disjoint_channels_filter)
  from ne have "hd ?m \<in> set ?m" by (rule hd_in_set)
  then have hm: "hd ?m \<in> set ws" by simp
  have dur: "\<forall>v \<in> set ?m. wf_duration v = wf_duration (hd ?m)"
  proof
    fix v
    assume "v \<in> set ?m"
    then have "v \<in> set ws" by simp
    with dall have "wf_duration v = wf_duration (hd ws)" by blast
    moreover from dall hm have "wf_duration (hd ?m) = wf_duration (hd ws)" by blast
    ultimately show "wf_duration v = wf_duration (hd ?m)" by (rule trans_sym)
  qed
  have init: "MultiChannelWaveform_init ?m = Inr (MultiChannelWaveform ?m)"
    unfolding MultiChannelWaveform_init_Inr fl using ne dur dis by blast
  from a none init
  have "get_subset_for_channels (MultiChannelWaveform ws) channels = Inr (MultiChannelWaveform ?m)"
    by simp
  moreover have "wellformed (MultiChannelWaveform ?m)"
    unfolding wellformed_MultiChannelWaveform using ne leaves dis dur
    unfolding list_all_iff by blast
  ultimately show "get_subset_for_channels (MultiChannelWaveform ws) channels
              = Inr (MultiChannelWaveform ?m) \<and> wellformed (MultiChannelWaveform ?m)"
    by (rule conjI)
  qed
  have p3: "\<not> channels \<subseteq> defined_channels (MultiChannelWaveform ws) \<longrightarrow>
            get_subset_for_channels (MultiChannelWaveform ws) channels = Inl KeyError"
    by simp
  show ?thesis by (rule conjI [OF p1 conjI [OF p2 p3]])
qed

theorem C5_get_subset_for_channels_witness:
  "get_subset_for_channels (MultiChannelWaveform [dwf_a, dwf_b, dwf_c_valid]) {ChanName ''A''}
     = Inr dwf_a
   \<and> get_subset_for_channels (MultiChannelWaveform [dwf_a, dwf_b, dwf_c_valid]) {ChanName ''C''}
     = Inr dwf_c_valid
   \<and> get_subset_for_channels (MultiChannelWaveform [dwf_a, dwf_b, dwf_c_valid])
       {ChanName ''A'', ChanName ''B''} = Inr (MultiChannelWaveform [dwf_a, dwf_b])
   \<and> get_subset_for_channels (MultiChannelWaveform [dwf_a, dwf_b, dwf_c_valid]) {ChanName ''D''}
     = Inl KeyError
   \<and> get_subset_for_channels (MultiChannelWaveform [dwf_a, dwf_b, dwf_c_valid])
       {ChanName ''A'', ChanName ''D''} = Inl KeyError"
proof -
  have wf: "wellformed (MultiChannelWaveform [dwf_a, dwf_b, dwf_c_valid])"
    by (simp add: dwf_a_def dwf_b_def dwf_c_valid_def)
  from C5_get_subset_for_channels [OF wf, of dwf_a]
  have a: "get_subset_for_channels (MultiChannelWaveform [dwf_a, dwf_b, dwf_c_valid])
      {ChanName ''A''} = Inr dwf_a"
    by (simp add: dwf_a_def dwf_b_def dwf_c_valid_def)
  from C5_get_subset_for_channels [OF wf, of dwf_c_valid]
  have c: "get_subset_for_channels (MultiChannelWaveform [dwf_a, dwf_b, dwf_c_valid])
      {ChanName ''C''} = Inr dwf_c_valid"
    by (simp add: dwf_a_def dwf_b_def dwf_c_valid_def)
  from C5_get_subset_for_channels [OF wf, of _ "{ChanName ''A'', ChanName ''B''}"]
  have ab: "get_subset_for_channels (MultiChannelWaveform [dwf_a, dwf_b, dwf_c_valid])
       {ChanName ''A'', ChanName ''B''} = Inr (MultiChannelWaveform [dwf_a, dwf_b])"
    by (simp add: dwf_a_def dwf_b_def dwf_c_valid_def)
  from C5_get_subset_for_channels [OF wf, of _ "{ChanName ''D''}"]
  have d: "get_subset_for_channels (MultiChannelWaveform [dwf_a, dwf_b, dwf_c_valid])
       {ChanName ''D''} = Inl KeyError"
    by (simp add: dwf_a_def dwf_b_def dwf_c_valid_def)
  from C5_get_subset_for_channels [OF wf, of _ "{ChanName ''A'', ChanName ''D''}"]
  have ad: "get_subset_for_channels (MultiChannelWaveform [dwf_a, dwf_b, dwf_c_valid])
       {ChanName ''A'', ChanName ''D''} = Inl KeyError"
    by (simp add: dwf_a_def dwf_b_def dwf_c_valid_def)
  from a c ab d ad show ?thesis by blast
qed

section \<open>Theorems: the multi-channel pulse templates\<close>

lemma any_requires_stop_iff:
  "any_requires_stop sts parameters conditions
     \<longleftrightarrow> (\<exists>st \<in> set sts. mt_requires_stop st parameters conditions)"
  by (induction sts) simp_all

lemma check_external_parameters_Inr:
  "check_external_parameters used declared = Inr u \<longleftrightarrow> declared = used"
  by (auto simp: check_external_parameters_def)

lemma check_external_parameters_missing:
  "x \<in> used \<Longrightarrow> check_external_parameters used (used - {x}) = Inl MissingParameterDeclarationException"
  by (auto simp: check_external_parameters_def)

lemma check_external_parameters_extra:
  "x \<notin> used \<Longrightarrow> check_external_parameters used (insert x used) = Inl MissingMappingException"
  by (auto simp: check_external_parameters_def)


lemma check_channel_overlap_Inr:
  "(\<exists>cs. check_channel_overlap acc sts = Inr cs) \<longleftrightarrow>
     disjoint_template_channels sts \<and> (\<forall>s \<in> set sts. mt_defined_channels s \<inter> acc = {})"
proof (induction sts arbitrary: acc)
  case Nil
  show ?case by simp
next
  case (Cons st sts)
  show ?case
  proof (cases "mt_defined_channels st \<inter> acc = {}")
    case False
    then show ?thesis by auto
  next
    case True
    have "(\<exists>cs. check_channel_overlap acc (st # sts) = Inr cs)
        \<longleftrightarrow> (\<exists>cs. check_channel_overlap (acc \<union> mt_defined_channels st) sts = Inr cs)"
      using True by simp
    also have "\<dots> \<longleftrightarrow> disjoint_template_channels sts
        \<and> (\<forall>s \<in> set sts. mt_defined_channels s \<inter> (acc \<union> mt_defined_channels st) = {})"
      by (rule Cons.IH)
    finally show ?thesis using True by (simp add: Int_Un_distrib) blast
  qed
qed

lemma check_channel_overlap_error:
  "check_channel_overlap acc sts = Inl e \<Longrightarrow> e = ChannelMappingException"
  by (induction sts arbitrary: acc) (auto split: if_splits)

lemma MultiChannelPulseTemplate_init_checked:
  assumes "sts \<noteq> []" and "disjoint_template_channels sts"
  shows "MultiChannelPulseTemplate_init sts declared =
     (case check_external_parameters (used_parameters sts []) declared of
        Inl e \<Rightarrow> Inl e
      | Inr u \<Rightarrow> Inr \<lparr> mc_subtemplates = sts, mc_parameter_names = declared,
                       mc_atomicity = False \<rparr>)"
proof -
  from assms(2) obtain cs where "check_channel_overlap {} sts = Inr cs"
    using check_channel_overlap_Inr [of "{}" sts] by auto
  with assms(1) show ?thesis by (simp add: MultiChannelPulseTemplate_init_def)
qed

lemma AtomicMultiChannelPulseTemplate_init_checked:
  assumes "sts \<noteq> []" and "\<forall>s \<in> set sts. pt_atomic (mt_template s)"
    and "disjoint_template_channels sts"
    and "\<forall>s \<in> set sts. ex_symbol (pt_duration (mt_template s))
                          = ex_symbol (pt_duration (mt_template (hd sts)))"
  shows "AtomicMultiChannelPulseTemplate_init sts (Some declared) constraints =
     (case check_external_parameters (used_parameters sts constraints) declared of
        Inl e \<Rightarrow> Inl e
      | Inr u \<Rightarrow> Inr \<lparr> amc_subtemplates = sts, amc_parameter_names = declared,
                       amc_duration = pt_duration (mt_template (hd sts)) \<rparr>)"
proof -
  from assms(1) obtain st rest where sts: "sts = st # rest" by (cases sts) auto
  from assms(3) obtain cs where c: "check_channel_overlap {} (st # rest) = Inr cs"
    using check_channel_overlap_Inr [of "{}" sts] unfolding sts by auto
  from assms(2) have a: "list_all (\<lambda>s. pt_atomic (mt_template s)) (st # rest)"
    unfolding sts list_all_iff .
  from assms(4) have d: "list_all (\<lambda>s. ex_symbol (pt_duration (mt_template s))
                                        = ex_symbol (pt_duration (mt_template st))) rest"
    unfolding sts list_all_iff by simp
  show ?thesis
    unfolding sts AtomicMultiChannelPulseTemplate_init_def
    using a c d by (simp del: check_channel_overlap.simps list.pred_inject split: sum.splits)
qed

lemma sub_names:
  "mt_parameter_names sub1 = {''pp1''}" "mt_parameter_names sub2 = {''pp2''}"
  "mt_parameter_names sub3 = {''pp3''}" "mt_parameter_names sub3_on_cc1 = {''pp3''}"
  by (simp_all add: mt_parameter_names_def sub1_def sub2_def sub3_def sub3_on_cc1_def renamed_def
      DummyPulseTemplate_def var_expression_def)

lemma sub_channels:
  "mt_defined_channels sub1 = {ChanName ''cc1''}" "mt_defined_channels sub2 = {ChanName ''cc2''}"
  "mt_defined_channels sub3 = {ChanName ''cc3''}"
  "mt_defined_channels sub3_on_cc1 = {ChanName ''cc1''}"
  by (simp_all add: mt_defined_channels_def sub1_def sub2_def sub3_def sub3_on_cc1_def renamed_def
      DummyPulseTemplate_def)

lemma st_names:
  "mt_parameter_names st_ab = {''a'', ''b''}" "mt_parameter_names st_ac = {''a'', ''c''}"
  by (auto simp: mt_parameter_names_def st_ab_def st_ac_def wrapped_def
      DummyPulseTemplate_def var_expression_def)

lemma st_channels:
  "mt_defined_channels st_ab = {ChanName ''A''}" "mt_defined_channels st_ac = {ChanName ''B''}"
  by (simp_all add: mt_defined_channels_def st_ab_def st_ac_def wrapped_def DummyPulseTemplate_def)

lemma check_external_parameters_same: "check_external_parameters used used = Inr ()"
  by (simp add: check_external_parameters_def)

lemma used_subs: "used_parameters [sub1, sub2, sub3] [] = {''pp1'', ''pp2'', ''pp3''}"
  by (auto simp: used_parameters_def sub_names)

lemma used_sts: "used_parameters [st_ab, st_ac] [a_less_d] = {''a'', ''b'', ''c'', ''d''}"
  by (auto simp: used_parameters_def st_names a_less_d_def)

text \<open>
  C6, as stated (construction succeeds if and only if the declared set equals the used
  names), fails: in \<open>test_channel_intersection\<close> the declared set is exactly the set of
  used names and construction fails all the same, with a channel-mapping error.
\<close>

theorem C6_channel_overlap_counterexample:
  "used_parameters [sub1, sub2, sub3_on_cc1] [] = {''pp1'', ''pp2'', ''pp3''}
   \<and> MultiChannelPulseTemplate_init [sub1, sub2, sub3_on_cc1] {''pp1'', ''pp2'', ''pp3''}
       = Inl ChannelMappingException"
  by (auto simp: used_parameters_def MultiChannelPulseTemplate_init_def sub_names sub_channels)

text \<open>
  C6, amended: for a composition that passes the validations that come before the
  parameter check (it is not empty and its mapped channel sets are pairwise disjoint; for
  \<open>AtomicMultiChannelPulseTemplate\<close> also every sub-template is atomic and all duration
  expressions are the same), construction with an explicit \<open>external_parameters\<close> set
  succeeds if and only if that set equals the union of the sub-templates' mapped parameter
  names and the names the parameter constraints refer to; with one used name left out it
  fails with a missing-parameter-declaration error, with one unused name added it fails
  with a missing-mapping error.
\<close>

theorem C6_external_parameters_checked:
  "(sts \<noteq> [] \<and> disjoint_template_channels sts \<longrightarrow>
      ((\<exists>t. MultiChannelPulseTemplate_init sts declared = Inr t)
         \<longleftrightarrow> declared = used_parameters sts [])
      \<and> (x \<in> used_parameters sts [] \<longrightarrow>
            MultiChannelPulseTemplate_init sts (used_parameters sts [] - {x})
              = Inl MissingParameterDeclarationException)
      \<and> (x \<notin> used_parameters sts [] \<longrightarrow>
            MultiChannelPulseTemplate_init sts (insert x (used_parameters sts []))
              = Inl MissingMappingException))
   \<and> (sts \<noteq> [] \<and> (\<forall>s \<in> set sts. pt_atomic (mt_template s)) \<and> disjoint_template_channels sts
        \<and> (\<forall>s \<in> set sts. ex_symbol (pt_duration (mt_template s))
                              = ex_symbol (pt_duration (mt_template (hd sts)))) \<longrightarrow>
      ((\<exists>t. AtomicMultiChannelPulseTemplate_init sts (Some declared) constraints = Inr t)
         \<longleftrightarrow> declared = used_parameters sts constraints)
      \<and> (x \<in> used_parameters sts constraints \<longrightarrow>
            AtomicMultiChannelPulseTemplate_init sts
              (Some (used_parameters sts constraints - {x})) constraints
              = Inl MissingParameterDeclarationException)
      \<and> (x \<notin> used_parameters sts constraints \<longrightarrow>
            AtomicMultiChannelPulseTemplate_init sts
              (Some (insert x (used_parameters sts constraints))) constraints
              = Inl MissingMappingException))"
proof (rule conjI; rule impI)
  assume a: "sts \<noteq> [] \<and> disjoint_template_channels sts"
  then have init: "\<And>declared. MultiChannelPulseTemplate_init sts declared =
     (case check_external_parameters (used_parameters sts []) declared of
        Inl e \<Rightarrow> Inl e
      | Inr u \<Rightarrow> Inr \<lparr> mc_subtemplates = sts, mc_parameter_names = declared,
                       mc_atomicity = False \<rparr>)"
    by (simp add: MultiChannelPulseTemplate_init_checked)
  show "((\<exists>t. MultiChannelPulseTemplate_init sts declared = Inr t)
         \<longleftrightarrow> declared = used_parameters sts [])
      \<and> (x \<in> used_parameters sts [] \<longrightarrow>
            MultiChannelPulseTemplate_init sts (used_parameters sts [] - {x})
              = Inl MissingParameterDeclarationException)
      \<and> (x \<notin> used_parameters sts [] \<longrightarrow>
            MultiChannelPulseTemplate_init sts (insert x (used_parameters sts []))
              = Inl MissingMappingException)"
    unfolding init
    by (auto simp: check_external_parameters_missing check_external_parameters_extra
        check_external_parameters_Inr check_external_parameters_same split: sum.splits)
next
  assume a: "sts \<noteq> [] \<and> (\<forall>s \<in> set sts. pt_atomic (mt_template s)) \<and> disjoint_template_channels sts
        \<and> (\<forall>s \<in> set sts. ex_symbol (pt_duration (mt_template s))
                              = ex_symbol (pt_duration (mt_template (hd sts))))"
  then have init: "\<And>declared. AtomicMultiChannelPulseTemplate_init sts (Some declared) constraints =
     (case check_external_parameters (used_parameters sts constraints) declared of
        Inl e \<Rightarrow> Inl e
      | Inr u \<Rightarrow> Inr \<lparr> amc_subtemplates = sts, amc_parameter_names = declared,
                       amc_duration = pt_duration (mt_template (hd sts)) \<rparr>)"
    using AtomicMultiChannelPulseTemplate_init_checked [of sts] by blast
  show "((\<exists>t. AtomicMultiChannelPulseTemplate_init sts (Some declared) constraints = Inr t)
         \<longleftrightarrow> declared = used_parameters sts constraints)
      \<and> (x \<in> used_parameters sts constraints \<longrightarrow>
            AtomicMultiChannelPulseTemplate_init sts
              (Some (used_parameters sts constraints - {x})) constraints
              = Inl MissingParameterDeclarationException)
      \<and> (x \<notin> used_parameters sts constraints \<longrightarrow>
            AtomicMultiChannelPulseTemplate_init sts
              (Some (insert x (used_parameters sts constraints))) constraints
              = Inl MissingMappingException)"
    unfolding init
    by (auto simp: check_external_parameters_missing check_external_parameters_extra
        check_external_parameters_Inr check_external_parameters_same split: sum.splits)
qed

theorem C6_external_parameters_checked_witness:
  "(\<exists>t. MultiChannelPulseTemplate_init [sub1, sub2, sub3] {''pp1'', ''pp2'', ''pp3''} = Inr t)
   \<and> MultiChannelPulseTemplate_init [sub1, sub2, sub3] {''pp1'', ''pp2''}
       = Inl MissingParameterDeclarationException
   \<and> MultiChannelPulseTemplate_init [sub1, sub2, sub3] {''pp1'', ''pp2'', ''pp3'', ''foo''}
       = Inl MissingMappingException
   \<and> (\<exists>t. AtomicMultiChannelPulseTemplate_init [st_ab, st_ac]
            (Some {''a'', ''b'', ''c'', ''d''}) [a_less_d] = Inr t)
   \<and> AtomicMultiChannelPulseTemplate_init [st_ab, st_ac] (Some {''a'', ''c'', ''d''}) [a_less_d]
       = Inl MissingParameterDeclarationException
   \<and> AtomicMultiChannelPulseTemplate_init [st_ab, st_ac]
         (Some {''a'', ''b'', ''c'', ''d'', ''e''}) [a_less_d]
       = Inl MissingMappingException"
proof -
  have d1: "[sub1, sub2, sub3] \<noteq> [] \<and> disjoint_template_channels [sub1, sub2, sub3]"
    by (simp add: sub_channels)
  have d2: "[st_ab, st_ac] \<noteq> [] \<and> (\<forall>s \<in> set [st_ab, st_ac]. pt_atomic (mt_template s))
      \<and> disjoint_template_channels [st_ab, st_ac]
      \<and> (\<forall>s \<in> set [st_ab, st_ac]. ex_symbol (pt_duration (mt_template s))
                              = ex_symbol (pt_duration (mt_template (hd [st_ab, st_ac]))))"
    by (simp add: st_channels) (simp add: st_ab_def st_ac_def wrapped_def DummyPulseTemplate_def)
  have s1: "{''pp1'', ''pp2'', ''pp3''} - {''pp3''} = {''pp1'', ''pp2''}" by auto
  have s2: "insert ''foo'' {''pp1'', ''pp2'', ''pp3''} = {''pp1'', ''pp2'', ''pp3'', ''foo''}"
    by auto
  have s3: "{''a'', ''b'', ''c'', ''d''} - {''b''} = {''a'', ''c'', ''d''}" by auto
  have s4: "insert ''e'' {''a'', ''b'', ''c'', ''d''} = {''a'', ''b'', ''c'', ''d'', ''e''}"
    by auto
  from d1 C6_external_parameters_checked [where sts = "[sub1, sub2, sub3]" and declared = "{''pp1'', ''pp2'', ''pp3''}"
      and x = "''pp3''"]
  have a: "(\<exists>t. MultiChannelPulseTemplate_init [sub1, sub2, sub3] {''pp1'', ''pp2'', ''pp3''} = Inr t)
    \<and> MultiChannelPulseTemplate_init [sub1, sub2, sub3] {''pp1'', ''pp2''}
       = Inl MissingParameterDeclarationException"
    by (simp add: used_subs s1)
  from d1 C6_external_parameters_checked [where sts = "[sub1, sub2, sub3]" and declared = "{''pp1'', ''pp2'', ''pp3''}"
      and x = "''foo''"]
  have b: "MultiChannelPulseTemplate_init [sub1, sub2, sub3] {''pp1'', ''pp2'', ''pp3'', ''foo''}
       = Inl MissingMappingException"
    by (simp add: used_subs s2)
  from d2 C6_external_parameters_checked [where sts = "[st_ab, st_ac]" and declared = "{''a'', ''b'', ''c'', ''d''}"
      and constraints = "[a_less_d]" and x = "''b''"]
  have c: "(\<exists>t. AtomicMultiChannelPulseTemplate_init [st_ab, st_ac]
            (Some {''a'', ''b'', ''c'', ''d''}) [a_less_d] = Inr t)
   \<and> AtomicMultiChannelPulseTemplate_init [st_ab, st_ac] (Some {''a'', ''c'', ''d''}) [a_less_d]
       = Inl MissingParameterDeclarationException"
    by (simp add: used_sts s3)
  from d2 C6_external_parameters_checked [where sts = "[st_ab, st_ac]" and declared = "{''a'', ''b'', ''c'', ''d''}"
      and constraints = "[a_less_d]" and x = "''e''"]
  have d: "AtomicMultiChannelPulseTemplate_init [st_ab, st_ac]
         (Some {''a'', ''b'', ''c'', ''d'', ''e''}) [a_less_d]
       = Inl MissingMappingException"
    by (simp add: used_sts s4)
  from a b c d show ?thesis by blast
qed

text \<open>
  C8: \<open>requires_stop\<close> of a \<open>MultiChannelPulseTemplate\<close> is true if and only if at least
  one sub-template, evaluated with its mapped parameter bindings, reports true; when every
  sub-template reports false, the composite reports false.
\<close>

theorem C8_requires_stop_is_or:
  "(requires_stop self parameters conditions \<longleftrightarrow>
      (\<exists>st \<in> set (mc_subtemplates self).
         pt_requires_stop (mt_template st) (map_parameters st parameters) conditions))
   \<and> ((\<forall>st \<in> set (mc_subtemplates self).
          \<not> pt_requires_stop (mt_template st) (map_parameters st parameters) conditions)
        \<longrightarrow> \<not> requires_stop self parameters conditions)"
  by (simp add: requires_stop_def any_requires_stop_iff mt_requires_stop_def)

theorem C8_requires_stop_is_or_witness:
  "requires_stop pulse_bar_rab [''bar'' \<mapsto> - 36 / 10, ''rab'' \<mapsto> 3526 / 100] ()
   \<and> \<not> requires_stop pulse_bar_rab [''bar'' \<mapsto> 36 / 10, ''rab'' \<mapsto> 3526 / 100] ()"
  using C8_requires_stop_is_or [of pulse_bar_rab "[''bar'' \<mapsto> - 36 / 10, ''rab'' \<mapsto> 3526 / 100]" "()"]
    C8_requires_stop_is_or [of pulse_bar_rab "[''bar'' \<mapsto> 36 / 10, ''rab'' \<mapsto> 3526 / 100]" "()"]
  by (simp add: pulse_bar_rab_def stops_below_zero_def map_parameters_def twice_bar_def
      rab_minus_5_def)


















end
